theory Spec2Isabelle
  imports Main "HOL-Library.Word"
begin

section \<open>Data model\<close>

text \<open>
  The handler \<open>ServeHTTP\<close> of \<open>api/server/handlers/porter_app/create.go\<close> talks to the
  cluster (helm agent, kubernetes agent, chart loader), to the relational store and to
  the manifest compiler \<open>parse\<close>. None of them is part of the handler, so each is a
  field of the record \<open>env\<close>: a function from the arguments of the call to what the call
  returns. A Go \<open>error\<close> is its message; a call returning only an error is
  \<open>error option\<close> (\<open>None\<close> is \<open>nil\<close>), a call returning a value and an error is a sum
  with the error on the left.
\<close>

type_synonym error = string

text \<open>\<open>map[string]interface{}\<close>; \<open>None\<close> is the \<open>nil\<close> map.\<close>
type_synonym gomap = "(string \<times> string) list option"

type_synonym chart = string
type_synonym registry = string

record ImageInfo =
  Repository :: string
  Tag :: string

record CreatePorterAppRequest =
  req_RepoName :: string
  req_GitRepoID :: nat
  req_GitBranch :: string
  req_BuildContext :: string
  req_Builder :: string
  req_Buildpacks :: string
  req_Dockerfile :: string
  req_ImageRepoURI :: string
  req_PullRequestURL :: string
  req_PorterYamlPath :: string
  req_PorterYAMLBase64 :: string
  req_ImageInfo :: ImageInfo
  req_OverrideRelease :: bool

record PorterApp =
  app_ID :: nat
  app_Name :: string
  app_ClusterID :: nat
  app_ProjectID :: nat
  app_RepoName :: string
  app_GitRepoID :: nat
  app_GitBranch :: string
  app_BuildContext :: string
  app_Builder :: string
  app_Buildpacks :: string
  app_Dockerfile :: string
  app_ImageRepoURI :: string
  app_PullRequestURL :: string
  app_PorterYamlPath :: string

text \<open>A helm release; \<open>Version\<close> is a Go \<open>int\<close> (64 bits on the server's targets).\<close>

record Release =
  rel_Name :: string
  rel_Version :: "64 word"
  rel_Config :: gomap
  rel_Dependencies :: "string list"

text \<open>
  \<open>helm.InstallChartConfig\<close> and \<open>helm.UpgradeReleaseConfig\<close>. The fields \<open>Cluster\<close> and
  \<open>Repo\<close> are the request's cluster and the store handle, the same in every call of one
  request, and are left out.
\<close>

record InstallChartConfig =
  icc_Chart :: chart
  icc_Name :: string
  icc_Namespace :: string
  icc_Values :: gomap
  icc_Registries :: "registry list"

record UpgradeReleaseConfig =
  urc_Name :: string
  urc_Registries :: "registry list"
  urc_Values :: gomap
  urc_Chart :: chart

text \<open>\<open>models.PorterAppEvent\<close>; \<open>ev_revision\<close> is \<open>Metadata["revision"]\<close>.\<close>

record PorterAppEvent =
  ev_ID :: nat
  ev_Status :: string
  ev_Type :: string
  ev_TypeExternalSource :: string
  ev_PorterAppID :: nat
  ev_revision :: "64 word"

definition uuid_Nil :: nat where
  "uuid_Nil = 0"

text \<open>The two constructors of \<open>apierrors\<close> the handler uses; the number is the HTTP status.\<close>

datatype api_error =
  ErrInternal error
| ErrPassThroughToClient error nat

text \<open>
  What the handler does to the response writer, in order. \<open>WriteResult\<close> carries the
  row whose \<open>ToPorterAppType\<close> is written. \<open>Panic\<close> is the run-time panic of a \<open>nil\<close>
  pointer dereference.
\<close>

datatype response =
  HandleAPIError api_error
| WriteResult PorterApp
| Panic

text \<open>
  The arguments of \<open>parse\<close> (lines 119 to 134) that differ between requests: the
  manifest, the image, the project id, the prior values and dependencies, the stack
  name of \<open>SubdomainCreateOpts\<close> and \<open>injectLauncher\<close>.
\<close>

record parse_input =
  pi_porterYaml :: string
  pi_imageInfo :: ImageInfo
  pi_projectID :: nat
  pi_releaseValues :: gomap
  pi_releaseDependencies :: "string list"
  pi_stackName :: string
  pi_injectLauncher :: bool

text \<open>
  The calls the handler makes on the cluster, the chart loader, the store and the
  manifest compiler, in order, with their arguments.
\<close>

datatype call =
  GetRelease string
| ListRegistriesByProjectID nat
| ReadPorterAppByName nat string
| CreateNamespace string
| LoadChartPublic string string
| InstallChart InstallChartConfig
| UninstallChart string
| UpgradeReleaseByValues UpgradeReleaseConfig
| UpgradeInstallChart InstallChartConfig
| UpdatePorterApp PorterApp
| CreateEvent PorterAppEvent
| Parse parse_input

record outcome =
  calls :: "call list"
  responses :: "response list"

text \<open>
  The environment of one request. \<open>repo_ReadPorterAppByName\<close> takes the call site first
  (\<open>0\<close>: the builder lookup of line 111; \<open>1\<close>: the read of line 197 or 316), since the
  store may answer the two reads differently. \<open>parse\<close> returns the chart, the values
  of the main release and the values of the release job (\<open>None\<close>: no release job asked
  for).
\<close>

record env =
  ctx_project_ID :: nat
  ctx_cluster_ID :: nat
  ctx_cluster_ProjectID :: nat
  conf_DefaultApplicationHelmRepoURL :: string
  conf_DefaultAppHelmRepoURL :: string
  DecodeAndValidate :: "CreatePorterAppRequest option"
  GetURLParamString :: "error + string"
  GetHelmAgent :: "string \<Rightarrow> error option"
  GetAgent :: "string \<Rightarrow> error option"
  base64_DecodeString :: "string \<Rightarrow> error + string"
  attemptToGetImageInfoFromRelease :: "gomap \<Rightarrow> ImageInfo"
  parse :: "parse_input \<Rightarrow> error + (chart \<times> gomap \<times> gomap)"
  helm_GetRelease :: "string \<Rightarrow> error + Release"
  helm_InstallChart :: "InstallChartConfig \<Rightarrow> error option"
  helm_UninstallChart :: "string \<Rightarrow> error option"
  helm_UpgradeReleaseByValues :: "UpgradeReleaseConfig \<Rightarrow> error option"
  helm_UpgradeInstallChart :: "InstallChartConfig \<Rightarrow> error option"
  k8s_CreateNamespace :: "string \<Rightarrow> error option"
  loader_LoadChartPublic :: "string \<Rightarrow> string \<Rightarrow> error + chart"
  repo_ListRegistriesByProjectID :: "nat \<Rightarrow> error + registry list"
  repo_ReadPorterAppByName :: "nat \<Rightarrow> nat \<Rightarrow> string \<Rightarrow> error + PorterApp"
  repo_UpdatePorterApp :: "PorterApp \<Rightarrow> error + PorterApp"
  repo_CreateEvent :: "PorterAppEvent \<Rightarrow> error + PorterAppEvent"
  uuid_New :: nat

section \<open>The handler\<close>

text \<open>\<open>strings.Contains\<close>.\<close>

fun strings_Contains :: "string \<Rightarrow> string \<Rightarrow> bool" where
  "strings_Contains [] substr = (substr = [])"
| "strings_Contains (c # s) substr =
     (take (length substr) (c # s) = substr \<or> strings_Contains s substr)"

text \<open>
  \<open>createReleaseJobChart\<close> (lines 396 to 422): loads the public \<open>job\<close> chart and builds
  the install configuration of the release \<open>stackName-r\<close>.
\<close>

definition createReleaseJobChart ::
  "env \<Rightarrow> string \<Rightarrow> gomap \<Rightarrow> string \<Rightarrow> registry list \<Rightarrow> call list \<times> (error + InstallChartConfig)" where
  "createReleaseJobChart w stackName vals repoUrl registries =
     ([LoadChartPublic repoUrl ''job''],
      (case loader_LoadChartPublic w repoUrl ''job'' of
         Inl err \<Rightarrow> Inl err
       | Inr chart \<Rightarrow>
           Inr \<lparr>icc_Chart = chart,
                icc_Name = stackName @ ''-r'',
                icc_Namespace = ''porter-stack-'' @ stackName,
                icc_Values = vals,
                icc_Registries = registries\<rparr>))"

text \<open>
  \<open>createPorterAppEvent\<close> (lines 372 to 394). The store receives a pointer to the event;
  \<open>repo_CreateEvent\<close> returns the event as the store leaves it.
\<close>

definition createPorterAppEvent ::
  "env \<Rightarrow> string \<Rightarrow> nat \<Rightarrow> 64 word \<Rightarrow> call list \<times> (PorterAppEvent option \<times> error option)" where
  "createPorterAppEvent w status appID revision =
     (let event = \<lparr>ev_ID = uuid_New w,
                   ev_Status = status,
                   ev_Type = ''DEPLOY'',
                   ev_TypeExternalSource = ''KUBERNETES'',
                   ev_PorterAppID = appID,
                   ev_revision = revision\<rparr>
      in ([CreateEvent event],
          (case repo_CreateEvent w event of
             Inl err \<Rightarrow> (None, Some err)
           | Inr event' \<Rightarrow>
               if ev_ID event' = uuid_Nil then (None, None) else (Some event', None))))"

text \<open>What the first part of the handler (lines 44 to 138) hands to the two paths.\<close>

record prepared =
  p_stackName :: string
  p_namespace :: string
  p_helmRelease :: "Release option"
  p_shouldCreate :: bool
  p_request :: CreatePorterAppRequest
  p_registries :: "registry list"
  p_chart :: chart
  p_values :: gomap
  p_releaseJobValues :: gomap

text \<open>
  Lines 92 to 107: the prior values and dependencies handed to \<open>parse\<close>, and the image.
  On a create or an override nothing is carried over, and the image is read from the
  existing release when the request names no complete image. Otherwise the values and
  dependencies of \<open>helmRelease\<close> are reused; \<open>None\<close> is the \<open>nil\<close> dereference of
  line 105.
\<close>

definition ServeHTTP_priorRelease ::
  "env \<Rightarrow> CreatePorterAppRequest \<Rightarrow> bool \<Rightarrow> Release option
     \<Rightarrow> (gomap \<times> string list \<times> ImageInfo) option" where
  "ServeHTTP_priorRelease w request shouldCreate helmRelease =
    (let imageInfo = req_ImageInfo request in
     if shouldCreate \<or> req_OverrideRelease request then
       Some (None, [],
             (case helmRelease of
                None \<Rightarrow> imageInfo
              | Some rel \<Rightarrow>
                  if Repository imageInfo = [] \<or> Tag imageInfo = []
                  then attemptToGetImageInfoFromRelease w (rel_Config rel)
                  else imageInfo))
     else
       (case helmRelease of
          None \<Rightarrow> None
        | Some rel \<Rightarrow> Some (rel_Config rel, rel_Dependencies rel, imageInfo)))"

text \<open>
  Lines 109 to 115: a request without a builder takes the builder of the stored row,
  when the row can be read.
\<close>

definition ServeHTTP_builder ::
  "env \<Rightarrow> CreatePorterAppRequest \<Rightarrow> string \<Rightarrow> call list \<times> CreatePorterAppRequest" where
  "ServeHTTP_builder w request stackName =
    (if req_Builder request = [] then
       ([ReadPorterAppByName (ctx_cluster_ID w) stackName],
        (case repo_ReadPorterAppByName w 0 (ctx_cluster_ID w) stackName of
           Inl err \<Rightarrow> request
         | Inr app \<Rightarrow> request\<lparr>req_Builder := app_Builder app\<rparr>))
     else ([], request))"

text \<open>
  Lines 44 to 138 of \<open>ServeHTTP\<close>: decoding, the agents, the probe of the main release
  (\<open>shouldCreate := err != nil\<close>), the registries, the prior values, the builder and
  \<open>parse\<close>. The result is the calls made and either the response of an early return or
  the values the paths use.
\<close>

definition ServeHTTP_prepare :: "env \<Rightarrow> call list \<times> (response + prepared)" where
  "ServeHTTP_prepare w =
    (case DecodeAndValidate w of
       None \<Rightarrow> ([], Inl (HandleAPIError (ErrInternal ''error decoding request'')))
     | Some request \<Rightarrow>
    (case GetURLParamString w of
       Inl reqErr \<Rightarrow> ([], Inl (HandleAPIError (ErrPassThroughToClient reqErr 400)))
     | Inr stackName \<Rightarrow>
    (let namespace = ''porter-stack-'' @ stackName in
    (case GetHelmAgent w namespace of
       Some err \<Rightarrow> ([], Inl (HandleAPIError (ErrInternal (''error getting helm agent: '' @ err))))
     | None \<Rightarrow>
    (case GetAgent w namespace of
       Some err \<Rightarrow> ([], Inl (HandleAPIError (ErrInternal (''error getting k8s agent: '' @ err))))
     | None \<Rightarrow>
    (let probe = helm_GetRelease w stackName;
         helmRelease = (case probe of Inl err \<Rightarrow> None | Inr rel \<Rightarrow> Some rel);
         shouldCreate = isl probe;
         t1 = [GetRelease stackName]
     in
    (case base64_DecodeString w (req_PorterYAMLBase64 request) of
       Inl err \<Rightarrow> (t1, Inl (HandleAPIError (ErrInternal (''error decoding porter.yaml: '' @ err))))
     | Inr porterYaml \<Rightarrow>
    (let t2 = t1 @ [ListRegistriesByProjectID (ctx_cluster_ProjectID w)] in
    (case repo_ListRegistriesByProjectID w (ctx_cluster_ProjectID w) of
       Inl err \<Rightarrow> (t2, Inl (HandleAPIError (ErrInternal (''error listing registries: '' @ err))))
     | Inr registries \<Rightarrow>
    (case ServeHTTP_priorRelease w request shouldCreate helmRelease of
       None \<Rightarrow> (t2, Inl Panic)
     | Some (releaseValues, releaseDependencies, imageInfo) \<Rightarrow>
    (case ServeHTTP_builder w request stackName of
       (tb, request') \<Rightarrow>
    (let injectLauncher = (strings_Contains (req_Builder request') ''heroku'' \<or>
                           strings_Contains (req_Builder request') ''paketo'');
         a = \<lparr>pi_porterYaml = porterYaml,
              pi_imageInfo = imageInfo,
              pi_projectID = ctx_cluster_ProjectID w,
              pi_releaseValues = releaseValues,
              pi_releaseDependencies = releaseDependencies,
              pi_stackName = stackName,
              pi_injectLauncher = injectLauncher\<rparr>;
         t3 = t2 @ tb @ [Parse a]
     in
    (case parse w a of
       Inl err \<Rightarrow>
         (t3, Inl (HandleAPIError
                (ErrInternal (''error parsing porter.yaml into chart and values: '' @ err))))
     | Inr (chart, vals, releaseJobValues) \<Rightarrow>
         (t3, Inr \<lparr>p_stackName = stackName,
                   p_namespace = namespace,
                   p_helmRelease = helmRelease,
                   p_shouldCreate = shouldCreate,
                   p_request = request',
                   p_registries = registries,
                   p_chart = chart,
                   p_values = vals,
                   p_releaseJobValues = releaseJobValues\<rparr>))))))))))))))"

text \<open>
  Lines 150 to 171 and, word for word again, lines 241 to 262: build the configuration of
  the release job chart and install it; when the install fails, report it, uninstall
  \<open>stackName-r\<close> and return. The boolean says whether the handler goes on.
\<close>

definition installReleaseJobChart :: "env \<Rightarrow> prepared \<Rightarrow> call list \<times> response list \<times> bool" where
  "installReleaseJobChart w p =
    (case createReleaseJobChart w (p_stackName p) (p_releaseJobValues p)
            (conf_DefaultApplicationHelmRepoURL w) (p_registries p) of
       (t, Inl err) \<Rightarrow>
         (t, [HandleAPIError (ErrInternal (''error making config for release job chart: '' @ err))],
          False)
     | (t, Inr conf) \<Rightarrow>
        (case helm_InstallChart w conf of
           Some err \<Rightarrow>
             (t @ [InstallChart conf, UninstallChart (p_stackName p @ ''-r'')],
              HandleAPIError (ErrInternal (''error creating release job chart: '' @ err)) #
              (case helm_UninstallChart w (p_stackName p @ ''-r'') of
                 Some err' \<Rightarrow>
                   [HandleAPIError
                      (ErrInternal (''error uninstalling release job chart: '' @ err'))]
               | None \<Rightarrow> []),
              False)
         | None \<Rightarrow> (t @ [InstallChart conf], [], True)))"

text \<open>The configuration of the main release (lines 174 to 182 and 298 to 306).\<close>

definition appChartConfig :: "prepared \<Rightarrow> InstallChartConfig" where
  "appChartConfig p =
     \<lparr>icc_Chart = p_chart p,
      icc_Name = p_stackName p,
      icc_Namespace = p_namespace p,
      icc_Values = p_values p,
      icc_Registries = p_registries p\<rparr>"

text \<open>Lines 197 to 233: the record synchronisation of the create path.\<close>

definition ServeHTTP_create_record :: "env \<Rightarrow> prepared \<Rightarrow> outcome" where
  "ServeHTTP_create_record w p =
    (let request = p_request p;
         t1 = [ReadPorterAppByName (ctx_cluster_ID w) (p_stackName p)]
     in
    (case repo_ReadPorterAppByName w 1 (ctx_cluster_ID w) (p_stackName p) of
       Inl err \<Rightarrow> \<lparr>calls = t1, responses = [HandleAPIError (ErrInternal err)]\<rparr>
     | Inr existing \<Rightarrow>
        if app_Name existing \<noteq> [] then
          \<lparr>calls = t1,
           responses = [HandleAPIError (ErrPassThroughToClient
              (''app with name '' @ app_Name existing @ '' already exists in your project'') 403)]\<rparr>
        else
         (let app = \<lparr>app_ID = 0,
                     app_Name = p_stackName p,
                     app_ClusterID = ctx_cluster_ID w,
                     app_ProjectID = ctx_project_ID w,
                     app_RepoName = req_RepoName request,
                     app_GitRepoID = req_GitRepoID request,
                     app_GitBranch = req_GitBranch request,
                     app_BuildContext = req_BuildContext request,
                     app_Builder = req_Builder request,
                     app_Buildpacks = req_Buildpacks request,
                     app_Dockerfile = req_Dockerfile request,
                     app_ImageRepoURI = req_ImageRepoURI request,
                     app_PullRequestURL = req_PullRequestURL request,
                     app_PorterYamlPath = req_PorterYamlPath request\<rparr>;
              t2 = t1 @ [UpdatePorterApp app]
          in
         (case repo_UpdatePorterApp w app of
            Inl err \<Rightarrow>
              \<lparr>calls = t2,
               responses = [HandleAPIError (ErrInternal (''error writing app to DB: '' @ err))]\<rparr>
          | Inr porterApp \<Rightarrow>
              \<lparr>calls = t2 @ fst (createPorterAppEvent w ''SUCCESS'' (app_ID porterApp) 1),
               responses = [WriteResult porterApp]\<rparr>))))"

text \<open>
  Lines 148 to 172: the release job on the create path, installed only when the request
  overrides the release and the manifest asks for a release job.
\<close>

definition ServeHTTP_create_releaseJob :: "env \<Rightarrow> prepared \<Rightarrow> call list \<times> response list \<times> bool" where
  "ServeHTTP_create_releaseJob w p =
    (if req_OverrideRelease (p_request p) \<and> p_releaseJobValues p \<noteq> None
     then installReleaseJobChart w p
     else ([], [], True))"

text \<open>Lines 141 to 233: the create path.\<close>

definition ServeHTTP_create :: "env \<Rightarrow> prepared \<Rightarrow> outcome" where
  "ServeHTTP_create w p =
    (let t1 = [CreateNamespace (p_namespace p)] in
    (case k8s_CreateNamespace w (p_namespace p) of
       Some err \<Rightarrow>
         \<lparr>calls = t1,
          responses = [HandleAPIError (ErrInternal (''error creating namespace: '' @ err))]\<rparr>
     | None \<Rightarrow>
    (case ServeHTTP_create_releaseJob w p of
       (tj, rj, False) \<Rightarrow> \<lparr>calls = t1 @ tj, responses = rj\<rparr>
     | (tj, rj, True) \<Rightarrow>
    (let conf = appChartConfig p;
         t2 = t1 @ tj @ [InstallChart conf]
     in
    (case helm_InstallChart w conf of
       Some err \<Rightarrow>
         \<lparr>calls = t2 @ [UninstallChart (p_stackName p)],
          responses =
            rj @ HandleAPIError (ErrPassThroughToClient (''error deploying app: '' @ err) 400) #
            (case helm_UninstallChart w (p_stackName p) of
               Some err' \<Rightarrow> [HandleAPIError (ErrInternal (''error uninstalling chart: '' @ err'))]
             | None \<Rightarrow> [])\<rparr>
     | None \<Rightarrow>
         (let r = ServeHTTP_create_record w p
          in \<lparr>calls = t2 @ calls r, responses = rj @ responses r\<rparr>))))))"

text \<open>
  Lines 236 to 295: the release job on the update path. The boolean says whether the
  handler goes on to the main release; line 272 returns whether or not the uninstall
  failed.
\<close>

definition ServeHTTP_update_releaseJob :: "env \<Rightarrow> prepared \<Rightarrow> call list \<times> response list \<times> bool" where
  "ServeHTTP_update_releaseJob w p =
    (if req_OverrideRelease (p_request p) then
      (let releaseJobName = p_stackName p @ ''-r'';
           t1 = [GetRelease releaseJobName]
       in
      (case helm_GetRelease w releaseJobName of
         Inl err \<Rightarrow>
           (case installReleaseJobChart w p of (t, r, go) \<Rightarrow> (t1 @ t, r, go))
       | Inr helmRelease \<Rightarrow>
          if p_releaseJobValues p = None then
            (t1 @ [UninstallChart releaseJobName],
             (case helm_UninstallChart w releaseJobName of
                Some err \<Rightarrow>
                  [HandleAPIError
                     (ErrInternal (''error uninstalling release job chart: '' @ err))]
              | None \<Rightarrow> []),
             False)
          else
           (let t2 = t1 @ [LoadChartPublic (conf_DefaultAppHelmRepoURL w) ''job''] in
           (case loader_LoadChartPublic w (conf_DefaultAppHelmRepoURL w) ''job'' of
              Inl err \<Rightarrow>
                (t2,
                 [HandleAPIError
                    (ErrPassThroughToClient (''error loading release job chart: '' @ err) 400)],
                 False)
            | Inr chart \<Rightarrow>
               (let conf = \<lparr>urc_Name = rel_Name helmRelease,
                            urc_Registries = p_registries p,
                            urc_Values = p_releaseJobValues p,
                            urc_Chart = chart\<rparr>;
                    t3 = t2 @ [UpgradeReleaseByValues conf]
                in
               (case helm_UpgradeReleaseByValues w conf of
                  Some err \<Rightarrow>
                    (t3,
                     [HandleAPIError
                        (ErrInternal (''error upgrading release job chart: '' @ err))],
                     False)
                | None \<Rightarrow> (t3, [], True)))))))
     else ([], [], True))"

text \<open>Lines 322 to 357: the field rules applied to the row read from the store.\<close>

definition patchPorterApp :: "CreatePorterAppRequest \<Rightarrow> PorterApp \<Rightarrow> PorterApp" where
  "patchPorterApp request app =
    (let app = (if req_RepoName request \<noteq> [] then app\<lparr>app_RepoName := req_RepoName request\<rparr>
                else app);
         app = (if req_GitBranch request \<noteq> [] then app\<lparr>app_GitBranch := req_GitBranch request\<rparr>
                else app);
         app = (if req_BuildContext request \<noteq> []
                then app\<lparr>app_BuildContext := req_BuildContext request\<rparr> else app);
         app = (if req_Builder request \<noteq> [] then
                  (if req_Builder request = ''null'' then app\<lparr>app_Builder := []\<rparr>
                   else app\<lparr>app_Builder := req_Builder request\<rparr>)
                else app);
         app = (if req_Buildpacks request \<noteq> [] then
                  (if req_Buildpacks request = ''null'' then app\<lparr>app_Buildpacks := []\<rparr>
                   else app\<lparr>app_Buildpacks := req_Buildpacks request\<rparr>)
                else app);
         app = (if req_Dockerfile request \<noteq> [] then
                  (if req_Dockerfile request = ''null'' then app\<lparr>app_Dockerfile := []\<rparr>
                   else app\<lparr>app_Dockerfile := req_Dockerfile request\<rparr>)
                else app);
         app = (if req_ImageRepoURI request \<noteq> []
                then app\<lparr>app_ImageRepoURI := req_ImageRepoURI request\<rparr> else app);
         app = (if req_PullRequestURL request \<noteq> []
                then app\<lparr>app_PullRequestURL := req_PullRequestURL request\<rparr> else app)
     in app)"

text \<open>Lines 297 to 367: the main release and the record on the update path.\<close>

definition ServeHTTP_update_app :: "env \<Rightarrow> prepared \<Rightarrow> outcome" where
  "ServeHTTP_update_app w p =
    (let conf = appChartConfig p;
         t1 = [UpgradeInstallChart conf]
     in
    (case helm_UpgradeInstallChart w conf of
       Some err \<Rightarrow>
         \<lparr>calls = t1,
          responses =
            [HandleAPIError (ErrPassThroughToClient (''error deploying app: '' @ err) 400)]\<rparr>
     | None \<Rightarrow>
    (let t2 = t1 @ [ReadPorterAppByName (ctx_cluster_ID w) (p_stackName p)] in
    (case repo_ReadPorterAppByName w 1 (ctx_cluster_ID w) (p_stackName p) of
       Inl err \<Rightarrow> \<lparr>calls = t2, responses = [HandleAPIError (ErrInternal err)]\<rparr>
     | Inr app \<Rightarrow>
    (let app' = patchPorterApp (p_request p) app;
         t3 = t2 @ [UpdatePorterApp app']
     in
    (case repo_UpdatePorterApp w app' of
       Inl err \<Rightarrow>
         \<lparr>calls = t3,
          responses =
            [HandleAPIError (ErrInternal (''error writing updated app to DB: '' @ err))]\<rparr>
     | Inr updatedPorterApp \<Rightarrow>
        (case p_helmRelease p of
           None \<Rightarrow> \<lparr>calls = t3, responses = [Panic]\<rparr>
         | Some helmRelease \<Rightarrow>
             \<lparr>calls = t3 @ fst (createPorterAppEvent w ''SUCCESS'' (app_ID updatedPorterApp)
                                  (rel_Version helmRelease + 1)),
              responses = [WriteResult updatedPorterApp]\<rparr>)))))))"

text \<open>Lines 235 to 368: the update path.\<close>

definition ServeHTTP_update :: "env \<Rightarrow> prepared \<Rightarrow> outcome" where
  "ServeHTTP_update w p =
    (case ServeHTTP_update_releaseJob w p of
       (tj, rj, False) \<Rightarrow> \<lparr>calls = tj, responses = rj\<rparr>
     | (tj, rj, True) \<Rightarrow>
         (let r = ServeHTTP_update_app w p
          in \<lparr>calls = tj @ calls r, responses = rj @ responses r\<rparr>))"

text \<open>Line 140: \<open>if shouldCreate\<close> selects the path.\<close>

definition ServeHTTP_path :: "env \<Rightarrow> prepared \<Rightarrow> outcome" where
  "ServeHTTP_path w p = (if p_shouldCreate p then ServeHTTP_create w p else ServeHTTP_update w p)"

text \<open>\<open>ServeHTTP\<close> (lines 43 to 369).\<close>

definition ServeHTTP :: "env \<Rightarrow> outcome" where
  "ServeHTTP w =
    (case ServeHTTP_prepare w of
       (t, Inl r) \<Rightarrow> \<lparr>calls = t, responses = [r]\<rparr>
     | (t, Inr p) \<Rightarrow>
         (let r = ServeHTTP_path w p
          in \<lparr>calls = t @ calls r, responses = responses r\<rparr>))"

section \<open>The deploy hook of the command line: \<open>applyStack\<close>\<close>

text \<open>
  \<open>DeployStackHook.applyStack\<close> (the file of package \<open>stack\<close>, lines 63 to 107) reads the
  image the build step left in \<open>driverOutput["image"]\<close> and sends the create or update
  request. A value of type \<open>interface{}\<close> is a string or something else.
\<close>

datatype go_value = GoString string | GoOther

text \<open>The run-time panic of an index out of range: the index and the length.\<close>

datatype panic = IndexOutOfRange nat nat

text \<open>\<open>strings.Split\<close> with a separator of one byte.\<close>

fun strings_Split :: "string \<Rightarrow> char \<Rightarrow> string list" where
  "strings_Split [] sep = [[]]"
| "strings_Split (c # s) sep =
     (if c = sep then [] # strings_Split s sep
      else (case strings_Split s sep of
              [] \<Rightarrow> [[c]]
            | x # xs \<Rightarrow> (c # x) # xs))"

text \<open>Indexing a slice: Go panics when the index is not below the length.\<close>

definition go_index :: "'a list \<Rightarrow> nat \<Rightarrow> panic + 'a" where
  "go_index xs i = (if i < length xs then Inr (xs ! i) else Inl (IndexOutOfRange i (length xs)))"

record CreateStackReleaseRequest =
  csr_StackName :: string
  csr_PorterYAMLBase64 :: string
  csr_ImageInfo :: ImageInfo

record DeployStackHook =
  StackName :: string
  ProjectID :: nat
  ClusterID :: nat
  BuildImageDriverName :: string
  PorterYAML :: string

datatype client_call =
  CreateStack nat nat CreateStackReleaseRequest
| UpdateStack nat nat string CreateStackReleaseRequest

text \<open>
  Lines 64 to 73: the image of the request. \<open>imageInfo\<close> starts as the zero value and is
  set only when \<open>driverOutput["image"]\<close> is a non-empty string.
\<close>

definition applyStack_imageInfo :: "(string \<rightharpoonup> go_value) \<Rightarrow> panic + ImageInfo" where
  "applyStack_imageInfo driverOutput =
    (case driverOutput ''image'' of
       Some (GoString img) \<Rightarrow>
         if img \<noteq> [] then
           (let imageSpl = strings_Split img CHR '':'' in
            (case go_index imageSpl 0 of
               Inl pn \<Rightarrow> Inl pn
             | Inr repository \<Rightarrow>
                (case go_index imageSpl 1 of
                   Inl pn \<Rightarrow> Inl pn
                 | Inr tag \<Rightarrow> Inr \<lparr>Repository = repository, Tag = tag\<rparr>)))
         else Inr \<lparr>Repository = [], Tag = []\<rparr>
     | _ \<Rightarrow> Inr \<lparr>Repository = [], Tag = []\<rparr>)"

text \<open>
  \<open>applyStack\<close>: the base64 encoder and the API client are parameters. The result is the
  panic, or the request sent and the error returned.
\<close>

definition applyStack ::
  "DeployStackHook \<Rightarrow> (string \<Rightarrow> string) \<Rightarrow> (client_call \<Rightarrow> error option) \<Rightarrow> bool
     \<Rightarrow> (string \<rightharpoonup> go_value) \<Rightarrow> panic + (client_call \<times> error option)" where
  "applyStack t EncodeToString client shouldCreate driverOutput =
    (case applyStack_imageInfo driverOutput of
       Inl pn \<Rightarrow> Inl pn
     | Inr imageInfo \<Rightarrow>
        (let request = \<lparr>csr_StackName = StackName t,
                        csr_PorterYAMLBase64 = EncodeToString (PorterYAML t),
                        csr_ImageInfo = imageInfo\<rparr>
         in
         if shouldCreate then
           (let c = CreateStack (ProjectID t) (ClusterID t) request in
            Inr (c, (case client c of
                       Some err \<Rightarrow> Some (''error creating stack '' @ StackName t @ '': '' @ err)
                     | None \<Rightarrow> None)))
         else
           (let c = UpdateStack (ProjectID t) (ClusterID t) (StackName t) request in
            Inr (c, (case client c of
                       Some err \<Rightarrow> Some (''error updating stack '' @ StackName t @ '': '' @ err)
                     | None \<Rightarrow> None)))))"

section \<open>Reading a run of the handler\<close>

text \<open>The calls that change the cluster, and the calls that write to the store.\<close>

fun is_cluster_mutation :: "call \<Rightarrow> bool" where
  "is_cluster_mutation (CreateNamespace ns) = True"
| "is_cluster_mutation (InstallChart c) = True"
| "is_cluster_mutation (UninstallChart n) = True"
| "is_cluster_mutation (UpgradeReleaseByValues c) = True"
| "is_cluster_mutation (UpgradeInstallChart c) = True"
| "is_cluster_mutation c = False"

fun is_db_write :: "call \<Rightarrow> bool" where
  "is_db_write (UpdatePorterApp a) = True"
| "is_db_write (CreateEvent e) = True"
| "is_db_write c = False"

text \<open>
  The create path starts with \<open>CreateNamespace\<close> (line 142) and nothing else calls it.
  The update path starts with the probe of the release job (line 238) when the request
  overrides the release, and with \<open>UpgradeInstallChart\<close> (line 309) otherwise; the create
  path makes neither call.
\<close>

fun is_create_call :: "call \<Rightarrow> bool" where
  "is_create_call (CreateNamespace ns) = True"
| "is_create_call c = False"

fun is_update_call :: "string \<Rightarrow> call \<Rightarrow> bool" where
  "is_update_call stackName (GetRelease n) = (n = stackName @ ''-r'')"
| "is_update_call stackName (UpgradeInstallChart c) = True"
| "is_update_call stackName c = False"

definition takesCreatePath :: "outcome \<Rightarrow> bool" where
  "takesCreatePath out = list_ex is_create_call (calls out)"

definition takesUpdatePath :: "string \<Rightarrow> outcome \<Rightarrow> bool" where
  "takesUpdatePath stackName out = list_ex (is_update_call stackName) (calls out)"

text \<open>The rows and the events a run hands to the store, in order.\<close>

fun written_apps :: "call list \<Rightarrow> PorterApp list" where
  "written_apps [] = []"
| "written_apps (UpdatePorterApp a # cs) = a # written_apps cs"
| "written_apps (c # cs) = written_apps cs"

fun written_events :: "call list \<Rightarrow> PorterAppEvent list" where
  "written_events [] = []"
| "written_events (CreateEvent e # cs) = e # written_events cs"
| "written_events (c # cs) = written_events cs"

section \<open>Example requests\<close>

definition request_api :: CreatePorterAppRequest where
  "request_api =
     \<lparr>req_RepoName = ''acme/api'',
      req_GitRepoID = 7,
      req_GitBranch = ''main'',
      req_BuildContext = ''./'',
      req_Builder = ''heroku/buildpacks:20'',
      req_Buildpacks = [],
      req_Dockerfile = [],
      req_ImageRepoURI = ''registry.example/api'',
      req_PullRequestURL = [],
      req_PorterYamlPath = ''porter.yaml'',
      req_PorterYAMLBase64 = ''dmVyc2lvbjogdjE='',
      req_ImageInfo = \<lparr>Repository = ''registry.example/api'', Tag = ''v1''\<rparr>,
      req_OverrideRelease = True\<rparr>"

text \<open>The zero row, as a read that finds nothing returns it, and the row of \<open>api\<close>.\<close>

definition app_none :: PorterApp where
  "app_none =
     \<lparr>app_ID = 0, app_Name = [], app_ClusterID = 0, app_ProjectID = 0, app_RepoName = [],
      app_GitRepoID = 0, app_GitBranch = [], app_BuildContext = [], app_Builder = [],
      app_Buildpacks = [], app_Dockerfile = [], app_ImageRepoURI = [],
      app_PullRequestURL = [], app_PorterYamlPath = []\<rparr>"

definition app_api :: PorterApp where
  "app_api =
     \<lparr>app_ID = 5, app_Name = ''api'', app_ClusterID = 2, app_ProjectID = 1,
      app_RepoName = ''acme/api'', app_GitRepoID = 7, app_GitBranch = ''main'',
      app_BuildContext = ''./'', app_Builder = ''heroku/buildpacks:20'',
      app_Buildpacks = ''heroku/nodejs'', app_Dockerfile = [],
      app_ImageRepoURI = ''registry.example/api'', app_PullRequestURL = [],
      app_PorterYamlPath = ''porter.yaml''\<rparr>"

definition release_api :: Release where
  "release_api =
     \<lparr>rel_Name = ''api'', rel_Version = 3, rel_Config = Some [(''replicas'', ''1'')],
      rel_Dependencies = [''web'']\<rparr>"

definition release_job :: Release where
  "release_job =
     \<lparr>rel_Name = ''api-r'', rel_Version = 2, rel_Config = Some [(''command'', ''migrate'')],
      rel_Dependencies = []\<rparr>"

text \<open>
  A first deploy of \<open>api\<close> where every call succeeds: no release and no row yet, the
  manifest asks for a release job.
\<close>

definition env_create :: env where
  "env_create =
     \<lparr>ctx_project_ID = 1,
      ctx_cluster_ID = 2,
      ctx_cluster_ProjectID = 1,
      conf_DefaultApplicationHelmRepoURL = ''https://charts.example/apps'',
      conf_DefaultAppHelmRepoURL = ''https://charts.example/apps'',
      DecodeAndValidate = Some request_api,
      GetURLParamString = Inr ''api'',
      GetHelmAgent = (\<lambda>ns. None),
      GetAgent = (\<lambda>ns. None),
      base64_DecodeString = (\<lambda>s. Inr ''version: v1''),
      attemptToGetImageInfoFromRelease =
        (\<lambda>c. \<lparr>Repository = ''registry.example/api'', Tag = ''v0''\<rparr>),
      parse = (\<lambda>a. Inr (''web'', Some [(''replicas'', ''1'')], Some [(''command'', ''migrate'')])),
      helm_GetRelease = (\<lambda>n. Inl ''release: not found''),
      helm_InstallChart = (\<lambda>c. None),
      helm_UninstallChart = (\<lambda>n. None),
      helm_UpgradeReleaseByValues = (\<lambda>c. None),
      helm_UpgradeInstallChart = (\<lambda>c. None),
      k8s_CreateNamespace = (\<lambda>ns. None),
      loader_LoadChartPublic = (\<lambda>url n. Inr n),
      repo_ListRegistriesByProjectID = (\<lambda>i. Inr [''registry.example'']),
      repo_ReadPorterAppByName = (\<lambda>site cid n. Inr app_none),
      repo_UpdatePorterApp = (\<lambda>a. Inr (a\<lparr>app_ID := 5\<rparr>)),
      repo_CreateEvent = (\<lambda>e. Inr e),
      uuid_New = 42\<rparr>"

text \<open>
  A redeploy of \<open>api\<close> where every call succeeds: the main release and the release job
  exist, the row exists, and the manifest asks for no release job.
\<close>

definition env_update :: env where
  "env_update =
     env_create
       \<lparr>parse := (\<lambda>a. Inr (''web'', Some [(''replicas'', ''1'')], None)),
        helm_GetRelease := (\<lambda>n. if n = ''api'' then Inr release_api else Inr release_job),
        repo_ReadPorterAppByName := (\<lambda>site cid n. Inr app_api)\<rparr>"

text \<open>What the handler passes and writes on the first deploy of \<open>api\<close>.\<close>

definition parse_input_api :: parse_input where
  "parse_input_api =
     \<lparr>pi_porterYaml = ''version: v1'',
      pi_imageInfo = \<lparr>Repository = ''registry.example/api'', Tag = ''v1''\<rparr>,
      pi_projectID = 1, pi_releaseValues = None, pi_releaseDependencies = [],
      pi_stackName = ''api'', pi_injectLauncher = True\<rparr>"

definition calls_prepare_api :: "call list" where
  "calls_prepare_api = [GetRelease ''api'', ListRegistriesByProjectID 1, Parse parse_input_api]"

definition config_api :: InstallChartConfig where
  "config_api =
     \<lparr>icc_Chart = ''web'', icc_Name = ''api'', icc_Namespace = ''porter-stack-api'',
      icc_Values = Some [(''replicas'', ''1'')], icc_Registries = [''registry.example'']\<rparr>"

definition config_job :: "gomap \<Rightarrow> InstallChartConfig" where
  "config_job vals =
     \<lparr>icc_Chart = ''job'', icc_Name = ''api-r'', icc_Namespace = ''porter-stack-api'',
      icc_Values = vals, icc_Registries = [''registry.example'']\<rparr>"

definition row_new :: PorterApp where
  "row_new =
     \<lparr>app_ID = 0, app_Name = ''api'', app_ClusterID = 2, app_ProjectID = 1,
      app_RepoName = ''acme/api'', app_GitRepoID = 7, app_GitBranch = ''main'',
      app_BuildContext = ''./'', app_Builder = ''heroku/buildpacks:20'',
      app_Buildpacks = [], app_Dockerfile = [],
      app_ImageRepoURI = ''registry.example/api'', app_PullRequestURL = [],
      app_PorterYamlPath = ''porter.yaml''\<rparr>"

definition event_api :: "64 word \<Rightarrow> PorterAppEvent" where
  "event_api revision =
     \<lparr>ev_ID = 42, ev_Status = ''SUCCESS'', ev_Type = ''DEPLOY'',
      ev_TypeExternalSource = ''KUBERNETES'', ev_PorterAppID = 5, ev_revision = revision\<rparr>"

text \<open>The manifest does not compile.\<close>

definition env_bad_manifest :: env where
  "env_bad_manifest =
     env_create\<lparr>parse := (\<lambda>a. Inl ''yaml: line 3: did not find expected key'')\<rparr>"

text \<open>The install of the main release fails, and so does the uninstall that follows.\<close>

definition env_install_fails :: env where
  "env_install_fails =
     env_create
       \<lparr>helm_InstallChart :=
          (\<lambda>c. if icc_Name c = ''api'' then Some ''timed out waiting for the condition''
                else None),
        helm_UninstallChart := (\<lambda>n. Some ''release: not found'')\<rparr>"

text \<open>No release yet, but the store already holds a row named \<open>api\<close>.\<close>

definition env_name_taken :: env where
  "env_name_taken = env_create\<lparr>repo_ReadPorterAppByName := (\<lambda>site cid n. Inr app_api)\<rparr>"

text \<open>
  A redeploy that overrides the release: the main release exists, the release job does
  not, and the manifest asks for no release job.
\<close>

definition env_job_absent :: env where
  "env_job_absent =
     env_update
       \<lparr>helm_GetRelease :=
          (\<lambda>n. if n = ''api'' then Inr release_api else Inl ''release: not found'')\<rparr>"

text \<open>A redeploy without override that sends \<open>null\<close> as repository name and as buildpacks.\<close>

definition request_clear :: CreatePorterAppRequest where
  "request_clear =
     request_api\<lparr>req_RepoName := ''null'', req_Buildpacks := ''null'',
                 req_OverrideRelease := False\<rparr>"

definition env_clear_repo :: env where
  "env_clear_repo = env_update\<lparr>DecodeAndValidate := Some request_clear\<rparr>"

text \<open>A first deploy where the store refuses the event, and one where it refuses the row.\<close>

definition env_event_fails :: env where
  "env_event_fails = env_create\<lparr>repo_CreateEvent := (\<lambda>e. Inl ''connection refused'')\<rparr>"

definition env_write_fails :: env where
  "env_write_fails = env_create\<lparr>repo_UpdatePorterApp := (\<lambda>a. Inl ''connection refused'')\<rparr>"

text \<open>The deploy hook of \<open>api\<close>.\<close>

definition hook_api :: DeployStackHook where
  "hook_api =
     \<lparr>StackName = ''api'', ProjectID = 1, ClusterID = 2, BuildImageDriverName = ''build'',
      PorterYAML = ''version: v1''\<rparr>"

section \<open>The first part of the handler\<close>

text \<open>
  Lines 44 to 138 only read: none of their calls changes the cluster or writes to the
  store, and none is the first call of a path. The call of \<open>parse\<close> decides how they
  end, and a run that gets past them has probed the main release of the stack named in
  the URL.
\<close>

lemma builder_calls:
  "ServeHTTP_builder w request n = (tb, request') \<Longrightarrow>
     set tb \<subseteq> {ReadPorterAppByName (ctx_cluster_ID w) n}"
  by (auto simp: ServeHTTP_builder_def split: if_splits)

lemma builder_snd:
  "snd (ServeHTTP_builder w request n) =
     request\<lparr>req_Builder :=
       (if req_Builder request = [] then
          (case repo_ReadPorterAppByName w 0 (ctx_cluster_ID w) n of
             Inl err \<Rightarrow> [] | Inr a0 \<Rightarrow> app_Builder a0)
        else req_Builder request)\<rparr>"
  by (simp add: ServeHTTP_builder_def split: sum.split)

lemma priorRelease_Some:
  "shouldCreate \<or> helmRelease \<noteq> None \<Longrightarrow>
     ServeHTTP_priorRelease w request shouldCreate helmRelease \<noteq> None"
  by (auto simp: ServeHTTP_priorRelease_def Let_def split: option.splits)

lemma prepare_calls:
  "case ServeHTTP_prepare w of (t, r) \<Rightarrow>
     (\<forall>c \<in> set t. \<not> is_cluster_mutation c \<and> \<not> is_db_write c \<and> \<not> is_create_call c
         \<and> (\<forall>n. GetURLParamString w = Inr n \<longrightarrow> \<not> is_update_call n c))"
proof -
  have b: "\<And>request n tb request' c. ServeHTTP_builder w request n = (tb, request') \<Longrightarrow> c \<in> set tb \<Longrightarrow>
            c = ReadPorterAppByName (ctx_cluster_ID w) n"
    using builder_calls by blast
  show ?thesis
    by (auto simp add: ServeHTTP_prepare_def Let_def dest: b
           split: sum.split option.split prod.split)
qed

lemma prepare_parse:
  "case ServeHTTP_prepare w of (t, r) \<Rightarrow>
     (\<forall>a. Parse a \<in> set t \<longrightarrow>
        (case parse w a of
           Inl err \<Rightarrow> r = Inl (HandleAPIError (ErrInternal
                            (''error parsing porter.yaml into chart and values: '' @ err)))
         | Inr x \<Rightarrow> (\<exists>p. r = Inr p \<and> x = (p_chart p, p_values p, p_releaseJobValues p))))"
proof -
  have b: "\<And>request n tb request' c. ServeHTTP_builder w request n = (tb, request') \<Longrightarrow> c \<in> set tb \<Longrightarrow>
            c = ReadPorterAppByName (ctx_cluster_ID w) n"
    using builder_calls by blast
  show ?thesis
    by (auto simp add: ServeHTTP_prepare_def Let_def dest: b
           split: sum.split option.split prod.split)
qed

lemma prepare_ok:
  "case ServeHTTP_prepare w of
     (t, Inl r) \<Rightarrow> r \<noteq> Panic
   | (t, Inr p) \<Rightarrow>
       GetURLParamString w = Inr (p_stackName p) \<and>
       p_namespace p = ''porter-stack-'' @ p_stackName p \<and>
       p_shouldCreate p = isl (helm_GetRelease w (p_stackName p)) \<and>
       (p_shouldCreate p \<or> p_helmRelease p \<noteq> None) \<and>
       (case last t of
          Parse a \<Rightarrow> parse w a = Inr (p_chart p, p_values p, p_releaseJobValues p)
        | _ \<Rightarrow> False) \<and>
       (case DecodeAndValidate w of
          None \<Rightarrow> False
        | Some request \<Rightarrow> p_request p = snd (ServeHTTP_builder w request (p_stackName p)))"
proof -
  have pr: "\<And>request. ServeHTTP_priorRelease w request True None \<noteq> None"
           "\<And>request rel. ServeHTTP_priorRelease w request False (Some rel) \<noteq> None"
    by (rule priorRelease_Some, simp)+
  show ?thesis
    by (auto simp add: ServeHTTP_prepare_def Let_def split_beta pr
           split: sum.split option.split)
qed

section \<open>The release job and the two paths\<close>

text \<open>Which calls each part of a path can make, and what follows from one being made.\<close>

lemma installReleaseJobChart_calls:
  "\<forall>c \<in> set (fst (installReleaseJobChart w p)).
      c = LoadChartPublic (conf_DefaultApplicationHelmRepoURL w) ''job'' \<or>
      (\<exists>cj. c = InstallChart cj \<and> icc_Name cj = p_stackName p @ ''-r'') \<or>
      c = UninstallChart (p_stackName p @ ''-r'')"
  by (auto simp: installReleaseJobChart_def createReleaseJobChart_def
           split: sum.split option.split)

lemma installReleaseJobChart_go:
  "installReleaseJobChart w p = (t, r, True) \<Longrightarrow>
     r = [] \<and> (\<exists>cj. t = [LoadChartPublic (conf_DefaultApplicationHelmRepoURL w) ''job'', InstallChart cj] \<and>
               icc_Name cj = p_stackName p @ ''-r'' \<and> icc_Values cj = p_releaseJobValues p \<and>
               helm_InstallChart w cj = None)"
  by (auto simp: installReleaseJobChart_def createReleaseJobChart_def
           split: sum.splits option.splits)

lemma createPorterAppEvent_calls:
  "fst (createPorterAppEvent w s i v) =
     [CreateEvent \<lparr>ev_ID = uuid_New w, ev_Status = s, ev_Type = ''DEPLOY'',
                   ev_TypeExternalSource = ''KUBERNETES'', ev_PorterAppID = i,
                   ev_revision = v\<rparr>]"
  by (simp add: createPorterAppEvent_def Let_def)

lemma create_releaseJob_calls:
  "\<forall>c \<in> set (fst (ServeHTTP_create_releaseJob w p)).
      c = LoadChartPublic (conf_DefaultApplicationHelmRepoURL w) ''job'' \<or>
      (\<exists>cj. c = InstallChart cj \<and> icc_Name cj = p_stackName p @ ''-r'') \<or>
      c = UninstallChart (p_stackName p @ ''-r'')"
  using installReleaseJobChart_calls [of w p] by (simp add: ServeHTTP_create_releaseJob_def)

lemma create_releaseJob_go:
  "ServeHTTP_create_releaseJob w p = (t, r, True) \<Longrightarrow>
     r = [] \<and>
     (if req_OverrideRelease (p_request p) \<and> p_releaseJobValues p \<noteq> None
      then (\<exists>cj. t = [LoadChartPublic (conf_DefaultApplicationHelmRepoURL w) ''job'', InstallChart cj] \<and>
               icc_Name cj = p_stackName p @ ''-r'' \<and> icc_Values cj = p_releaseJobValues p \<and>
               helm_InstallChart w cj = None)
      else t = [])"
  using installReleaseJobChart_go [of w p t r]
  by (auto simp: ServeHTTP_create_releaseJob_def split: if_splits)

lemma create_record_calls:
  "\<forall>c \<in> set (calls (ServeHTTP_create_record w p)).
      c = ReadPorterAppByName (ctx_cluster_ID w) (p_stackName p) \<or>
      (\<exists>a. c = UpdatePorterApp a) \<or> (\<exists>e. c = CreateEvent e)"
  by (auto simp: ServeHTTP_create_record_def createPorterAppEvent_calls Let_def
           split: sum.split)

lemma create_calls:
  "\<forall>c \<in> set (calls (ServeHTTP_create w p)). \<not> is_update_call (p_stackName p) c \<and> (\<forall>a. c \<noteq> Parse a)"
  using create_releaseJob_calls [of w p] create_record_calls [of w p]
  by (auto simp: ServeHTTP_create_def Let_def split_beta split: option.split bool.split)

lemma create_head:
  "\<exists>rest. calls (ServeHTTP_create w p) = CreateNamespace (p_namespace p) # rest"
  by (simp add: ServeHTTP_create_def Let_def split_beta split: option.split bool.split)

lemma update_releaseJob_calls:
  "\<forall>c \<in> set (fst (ServeHTTP_update_releaseJob w p)).
      c = GetRelease (p_stackName p @ ''-r'') \<or>
      (\<exists>u. c = LoadChartPublic u ''job'') \<or>
      (\<exists>cj. c = InstallChart cj \<and> icc_Name cj = p_stackName p @ ''-r'') \<or>
      c = UninstallChart (p_stackName p @ ''-r'') \<or>
      (\<exists>u. c = UpgradeReleaseByValues u)"
  using installReleaseJobChart_calls [of w p]
  by (auto simp: ServeHTTP_update_releaseJob_def Let_def split_beta
           split: sum.split option.split)

lemma update_releaseJob_go:
  "ServeHTTP_update_releaseJob w p = (t, r, True) \<Longrightarrow> r = []"
  using installReleaseJobChart_go [of w p]
  by (auto simp: ServeHTTP_update_releaseJob_def Let_def
           split: sum.splits option.splits if_splits prod.splits)

lemma update_releaseJob_head:
  "req_OverrideRelease (p_request p) \<Longrightarrow>
     \<exists>rest. fst (ServeHTTP_update_releaseJob w p) = GetRelease (p_stackName p @ ''-r'') # rest"
  by (simp add: ServeHTTP_update_releaseJob_def Let_def split_beta
           split: sum.split option.split)

lemma update_releaseJob_skip:
  "\<not> req_OverrideRelease (p_request p) \<Longrightarrow> ServeHTTP_update_releaseJob w p = ([], [], True)"
  by (simp add: ServeHTTP_update_releaseJob_def)

lemma update_app_calls:
  "\<forall>c \<in> set (calls (ServeHTTP_update_app w p)).
      c = UpgradeInstallChart (appChartConfig p) \<or>
      c = ReadPorterAppByName (ctx_cluster_ID w) (p_stackName p) \<or>
      (\<exists>a. c = UpdatePorterApp a) \<or> (\<exists>e. c = CreateEvent e)"
  by (auto simp: ServeHTTP_update_app_def createPorterAppEvent_calls Let_def
           split: sum.split option.split)

lemma update_app_head:
  "\<exists>rest. calls (ServeHTTP_update_app w p) = UpgradeInstallChart (appChartConfig p) # rest"
  by (simp add: ServeHTTP_update_app_def Let_def split: sum.split option.split)

lemma update_app_UpdatePorterApp:
  "UpdatePorterApp a \<in> set (calls (ServeHTTP_update_app w p)) \<Longrightarrow>
     (\<exists>app. repo_ReadPorterAppByName w 1 (ctx_cluster_ID w) (p_stackName p) = Inr app \<and>
            a = patchPorterApp (p_request p) app) \<and>
     (\<forall>err. repo_UpdatePorterApp w a = Inl err \<longrightarrow>
        responses (ServeHTTP_update_app w p) =
          [HandleAPIError (ErrInternal (''error writing updated app to DB: '' @ err))])"
  by (auto simp: ServeHTTP_update_app_def createPorterAppEvent_calls Let_def
           split: sum.splits option.splits)

lemma update_app_CreateEvent:
  "CreateEvent e \<in> set (calls (ServeHTTP_update_app w p)) \<Longrightarrow>
     \<exists>app. responses (ServeHTTP_update_app w p) = [WriteResult app]"
  by (auto simp: ServeHTTP_update_app_def createPorterAppEvent_calls Let_def
           split: sum.splits option.splits)

lemma update_eq:
  "ServeHTTP_update w p =
     (let j = ServeHTTP_update_releaseJob w p in
      if snd (snd j) then
        \<lparr>calls = fst j @ calls (ServeHTTP_update_app w p),
         responses = responses (ServeHTTP_update_app w p)\<rparr>
      else \<lparr>calls = fst j, responses = fst (snd j)\<rparr>)"
proof (cases "ServeHTTP_update_releaseJob w p")
  case (fields tj rj go)
  then show ?thesis
    using update_releaseJob_go [of w p tj rj]
    by (cases go) (simp_all add: ServeHTTP_update_def Let_def)
qed

lemma update_calls:
  "\<forall>c \<in> set (calls (ServeHTTP_update w p)).
      \<not> is_create_call c \<and> (\<forall>a. c \<noteq> Parse a) \<and>
      (\<forall>cfg. c = InstallChart cfg \<longrightarrow> icc_Name cfg = p_stackName p @ ''-r'')"
  using update_releaseJob_calls [of w p] update_app_calls [of w p]
  by (auto simp: update_eq Let_def)

lemma update_takes:
  "list_ex (is_update_call (p_stackName p)) (calls (ServeHTTP_update w p))"
proof (cases "req_OverrideRelease (p_request p)")
  case True
  then show ?thesis
    using update_releaseJob_head [of p w]
    by (auto simp: update_eq Let_def)
next
  case False
  then show ?thesis
    using update_app_head [of w p]
    by (auto simp: update_eq Let_def update_releaseJob_skip)
qed

lemma update_UpdatePorterApp:
  assumes "UpdatePorterApp a \<in> set (calls (ServeHTTP_update w p))"
  shows "(\<exists>app. repo_ReadPorterAppByName w 1 (ctx_cluster_ID w) (p_stackName p) = Inr app \<and>
            a = patchPorterApp (p_request p) app) \<and>
     (\<forall>err. repo_UpdatePorterApp w a = Inl err \<longrightarrow>
        responses (ServeHTTP_update w p) =
          [HandleAPIError (ErrInternal (''error writing updated app to DB: '' @ err))])"
proof -
  have "UpdatePorterApp a \<notin> set (fst (ServeHTTP_update_releaseJob w p))"
    using update_releaseJob_calls [of w p] by auto
  with assms have "snd (snd (ServeHTTP_update_releaseJob w p))"
    and "UpdatePorterApp a \<in> set (calls (ServeHTTP_update_app w p))"
    by (auto simp: update_eq Let_def split: if_splits)
  then show ?thesis
    using update_app_UpdatePorterApp [of a w p] by (simp add: update_eq Let_def)
qed

lemma update_CreateEvent:
  assumes "CreateEvent e \<in> set (calls (ServeHTTP_update w p))"
  shows "\<exists>app. responses (ServeHTTP_update w p) = [WriteResult app]"
proof -
  have "CreateEvent e \<notin> set (fst (ServeHTTP_update_releaseJob w p))"
    using update_releaseJob_calls [of w p] by auto
  with assms have "snd (snd (ServeHTTP_update_releaseJob w p))"
    and "CreateEvent e \<in> set (calls (ServeHTTP_update_app w p))"
    by (auto simp: update_eq Let_def split: if_splits)
  then show ?thesis
    using update_app_CreateEvent [of e w p] by (simp add: update_eq Let_def)
qed

lemma prepare_nonempty:
  "case ServeHTTP_prepare w of (t, Inl r) \<Rightarrow> True | (t, Inr p) \<Rightarrow> t \<noteq> []"
  by (simp add: ServeHTTP_prepare_def Let_def split_beta split: sum.split option.split)

lemma create_eq:
  "ServeHTTP_create w p =
    (case k8s_CreateNamespace w (p_namespace p) of
       Some err \<Rightarrow>
         \<lparr>calls = [CreateNamespace (p_namespace p)],
          responses = [HandleAPIError (ErrInternal (''error creating namespace: '' @ err))]\<rparr>
     | None \<Rightarrow>
        (let j = ServeHTTP_create_releaseJob w p in
         if snd (snd j) then
           (case helm_InstallChart w (appChartConfig p) of
              Some err \<Rightarrow>
                \<lparr>calls = CreateNamespace (p_namespace p) # fst j @
                           [InstallChart (appChartConfig p), UninstallChart (p_stackName p)],
                 responses =
                   HandleAPIError (ErrPassThroughToClient (''error deploying app: '' @ err) 400) #
                   (case helm_UninstallChart w (p_stackName p) of
                      Some err' \<Rightarrow>
                        [HandleAPIError (ErrInternal (''error uninstalling chart: '' @ err'))]
                    | None \<Rightarrow> [])\<rparr>
            | None \<Rightarrow>
                \<lparr>calls = CreateNamespace (p_namespace p) # fst j @
                           InstallChart (appChartConfig p) # calls (ServeHTTP_create_record w p),
                 responses = responses (ServeHTTP_create_record w p)\<rparr>)
         else \<lparr>calls = CreateNamespace (p_namespace p) # fst j, responses = fst (snd j)\<rparr>))"
proof (cases "ServeHTTP_create_releaseJob w p")
  case (fields tj rj go)
  then show ?thesis
    using create_releaseJob_go [of w p tj rj]
    by (cases go) (simp_all add: ServeHTTP_create_def Let_def split: option.split)
qed

lemma create_record_no_install:
  "InstallChart c \<notin> set (calls (ServeHTTP_create_record w p))"
  using create_record_calls [of w p] by auto

lemma create_main_install:
  assumes "InstallChart c \<in> set (calls (ServeHTTP_create w p))" and "icc_Name c = p_stackName p"
  shows "c = appChartConfig p \<and> k8s_CreateNamespace w (p_namespace p) = None \<and>
         snd (snd (ServeHTTP_create_releaseJob w p))"
proof -
  have j: "InstallChart c \<notin> set (fst (ServeHTTP_create_releaseJob w p))"
    using create_releaseJob_calls [of w p] assms(2) by auto
  show ?thesis
    using assms(1) j create_record_no_install [of c w p]
    by (auto simp: create_eq Let_def split: option.splits if_splits)
qed

lemma create_UpdatePorterApp:
  assumes "UpdatePorterApp a \<in> set (calls (ServeHTTP_create w p))"
  shows "\<forall>err. repo_UpdatePorterApp w a = Inl err \<longrightarrow>
           responses (ServeHTTP_create w p) =
             [HandleAPIError (ErrInternal (''error writing app to DB: '' @ err))]"
proof -
  have j: "UpdatePorterApp a \<notin> set (fst (ServeHTTP_create_releaseJob w p))"
    using create_releaseJob_calls [of w p] by auto
  have r: "UpdatePorterApp a \<in> set (calls (ServeHTTP_create_record w p)) \<Longrightarrow>
           \<forall>err. repo_UpdatePorterApp w a = Inl err \<longrightarrow>
             responses (ServeHTTP_create_record w p) =
               [HandleAPIError (ErrInternal (''error writing app to DB: '' @ err))]"
    by (auto simp: ServeHTTP_create_record_def createPorterAppEvent_calls Let_def
             split: sum.splits if_splits)
  show ?thesis
    using assms j r
    by (auto simp: create_eq Let_def split: option.splits if_splits)
qed

lemma create_CreateEvent:
  assumes "CreateEvent e \<in> set (calls (ServeHTTP_create w p))"
  shows "\<exists>app. responses (ServeHTTP_create w p) = [WriteResult app]"
proof -
  have j: "CreateEvent e \<notin> set (fst (ServeHTTP_create_releaseJob w p))"
    using create_releaseJob_calls [of w p] by auto
  have r: "CreateEvent e \<in> set (calls (ServeHTTP_create_record w p)) \<Longrightarrow>
           \<exists>app. responses (ServeHTTP_create_record w p) = [WriteResult app]"
    by (auto simp: ServeHTTP_create_record_def createPorterAppEvent_calls Let_def
             split: sum.splits if_splits)
  show ?thesis
    using assms j r
    by (auto simp: create_eq Let_def split: option.splits if_splits)
qed

lemma create_db_write:
  assumes "list_ex is_db_write (calls (ServeHTTP_create w p))"
  shows "helm_InstallChart w (appChartConfig p) = None \<and>
         InstallChart (appChartConfig p) \<in> set (calls (ServeHTTP_create w p)) \<and>
         (\<exists>existing. repo_ReadPorterAppByName w 1 (ctx_cluster_ID w) (p_stackName p) = Inr existing \<and>
             app_Name existing = [])"
proof -
  have j: "\<forall>c \<in> set (fst (ServeHTTP_create_releaseJob w p)). \<not> is_db_write c"
    using create_releaseJob_calls [of w p] by auto
  have r: "list_ex is_db_write (calls (ServeHTTP_create_record w p)) \<Longrightarrow>
           (\<exists>existing. repo_ReadPorterAppByName w 1 (ctx_cluster_ID w) (p_stackName p) = Inr existing \<and>
             app_Name existing = [])"
    by (auto simp: ServeHTTP_create_record_def createPorterAppEvent_calls Let_def list_ex_iff
             split: sum.splits if_splits)
  show ?thesis
    using assms j r
    by (auto simp: create_eq Let_def list_ex_iff split: option.splits if_splits)
qed

lemma create_record_conflict:
  "repo_ReadPorterAppByName w 1 (ctx_cluster_ID w) (p_stackName p) = Inr existing \<Longrightarrow>
   app_Name existing \<noteq> [] \<Longrightarrow>
   ServeHTTP_create_record w p =
     \<lparr>calls = [ReadPorterAppByName (ctx_cluster_ID w) (p_stackName p)],
      responses = [HandleAPIError (ErrPassThroughToClient
        (''app with name '' @ app_Name existing @ '' already exists in your project'') 403)]\<rparr>"
  by (simp add: ServeHTTP_create_record_def Let_def)

section \<open>The whole handler\<close>

text \<open>
  A run is the first part alone, when it returns early, or the first part followed by
  one of the two paths.
\<close>

lemma ServeHTTP_eq:
  "ServeHTTP_prepare w = (t, Inr p) \<Longrightarrow>
     ServeHTTP w = \<lparr>calls = t @ calls (ServeHTTP_path w p), responses = responses (ServeHTTP_path w p)\<rparr>"
  by (simp add: ServeHTTP_def Let_def)

lemma ServeHTTP_eq_abort:
  "ServeHTTP_prepare w = (t, Inl r) \<Longrightarrow> ServeHTTP w = \<lparr>calls = t, responses = [r]\<rparr>"
  by (simp add: ServeHTTP_def)

lemma prepare_call:
  "ServeHTTP_prepare w = (t, r) \<Longrightarrow> c \<in> set t \<Longrightarrow>
     \<not> is_cluster_mutation c \<and> \<not> is_db_write c \<and> \<not> is_create_call c \<and>
     (GetURLParamString w = Inr n \<longrightarrow> \<not> is_update_call n c)"
  using prepare_calls [of w] by auto

lemma prepare_Parse:
  "ServeHTTP_prepare w = (t, r) \<Longrightarrow> Parse a \<in> set t \<Longrightarrow>
     (case parse w a of
        Inl err \<Rightarrow> r = Inl (HandleAPIError (ErrInternal
                         (''error parsing porter.yaml into chart and values: '' @ err)))
      | Inr x \<Rightarrow> (\<exists>p. r = Inr p \<and> x = (p_chart p, p_values p, p_releaseJobValues p)))"
  using prepare_parse [of w] by auto

lemma prepare_Inr:
  assumes "ServeHTTP_prepare w = (t, Inr p)"
  shows "GetURLParamString w = Inr (p_stackName p)"
    and "p_namespace p = ''porter-stack-'' @ p_stackName p"
    and "p_shouldCreate p = isl (helm_GetRelease w (p_stackName p))"
    and "p_shouldCreate p \<or> p_helmRelease p \<noteq> None"
    and "\<exists>a. Parse a \<in> set t \<and> parse w a = Inr (p_chart p, p_values p, p_releaseJobValues p)"
    and "\<exists>request. DecodeAndValidate w = Some request \<and>
           p_request p = snd (ServeHTTP_builder w request (p_stackName p))"
proof -
  note ok = prepare_ok [of w, unfolded assms, simplified]
  show "GetURLParamString w = Inr (p_stackName p)"
    and "p_namespace p = ''porter-stack-'' @ p_stackName p"
    and "p_shouldCreate p = isl (helm_GetRelease w (p_stackName p))"
    and "p_shouldCreate p \<or> p_helmRelease p \<noteq> None"
    using prepare_ok [of w] assms by auto
  have ne: "t \<noteq> []"
    using prepare_nonempty [of w] assms by simp
  from ok obtain a where "last t = Parse a"
    and "parse w a = Inr (p_chart p, p_values p, p_releaseJobValues p)"
    by (auto split: call.splits)
  with ne show "\<exists>a. Parse a \<in> set t \<and> parse w a = Inr (p_chart p, p_values p, p_releaseJobValues p)"
    by (metis last_in_set)
  show "\<exists>request. DecodeAndValidate w = Some request \<and>
           p_request p = snd (ServeHTTP_builder w request (p_stackName p))"
    using ok by (auto split: option.splits)
qed

lemma path_calls:
  "c \<in> set (calls (ServeHTTP_path w p)) \<Longrightarrow> c \<noteq> Parse a"
  using create_calls [of w p] update_calls [of w p]
  by (auto simp: ServeHTTP_path_def split: if_splits)

lemma ServeHTTP_cases:
  obtains (abort) t r where "ServeHTTP_prepare w = (t, Inl r)"
      and "ServeHTTP w = \<lparr>calls = t, responses = [r]\<rparr>"
    | (path) t p where "ServeHTTP_prepare w = (t, Inr p)"
      and "ServeHTTP w = \<lparr>calls = t @ calls (ServeHTTP_path w p),
                           responses = responses (ServeHTTP_path w p)\<rparr>"
proof (cases "ServeHTTP_prepare w")
  case (Pair t r)
  then show ?thesis
    by (cases r) (auto intro: abort path simp: ServeHTTP_eq ServeHTTP_eq_abort)
qed

lemma stackName_job_neq [simp]: "n \<noteq> n @ ''-r''"
  by simp

lemma main_install_on_create:
  assumes eq: "ServeHTTP_prepare w = (t, Inr p)"
      and c: "InstallChart c \<in> set (t @ calls (ServeHTTP_path w p))" "icc_Name c = p_stackName p"
  shows "p_shouldCreate p \<and> c = appChartConfig p \<and> k8s_CreateNamespace w (p_namespace p) = None \<and>
         snd (snd (ServeHTTP_create_releaseJob w p))"
proof -
  have "InstallChart c \<notin> set t"
    using prepare_call [OF eq, of "InstallChart c"] by auto
  with c(1) have in_path: "InstallChart c \<in> set (calls (ServeHTTP_path w p))" by simp
  have sc: "p_shouldCreate p"
  proof (rule ccontr)
    assume "\<not> p_shouldCreate p"
    with in_path have "InstallChart c \<in> set (calls (ServeHTTP_update w p))"
      by (simp add: ServeHTTP_path_def)
    then have "icc_Name c = p_stackName p @ ''-r''"
      using update_calls [of w p] by blast
    with c(2) show False by simp
  qed
  with in_path have "InstallChart c \<in> set (calls (ServeHTTP_create w p))"
    by (simp add: ServeHTTP_path_def)
  from create_main_install [OF this c(2)] sc show ?thesis by simp
qed

lemma path_create_or_update:
  assumes eq: "ServeHTTP_prepare w = (t, Inr p)"
  shows "list_ex is_create_call (t @ calls (ServeHTTP_path w p)) = p_shouldCreate p"
    and "list_ex (is_update_call (p_stackName p)) (t @ calls (ServeHTTP_path w p)) = (\<not> p_shouldCreate p)"
proof -
  have n: "GetURLParamString w = Inr (p_stackName p)"
    using prepare_Inr(1) [OF eq] .
  have t: "\<forall>c \<in> set t. \<not> is_create_call c \<and> \<not> is_update_call (p_stackName p) c"
    using prepare_call [OF eq] n by blast
  show "list_ex is_create_call (t @ calls (ServeHTTP_path w p)) = p_shouldCreate p"
    using t create_head [of w p] update_calls [of w p]
    by (auto simp: ServeHTTP_path_def list_ex_iff)
  show "list_ex (is_update_call (p_stackName p)) (t @ calls (ServeHTTP_path w p)) = (\<not> p_shouldCreate p)"
    using t create_calls [of w p] update_takes [of p w]
    by (auto simp: ServeHTTP_path_def list_ex_iff)
qed

lemma update_branch:
  assumes eq: "ServeHTTP_prepare w = (t, Inr p)"
      and n: "GetURLParamString w = Inr stackName"
      and r: "DecodeAndValidate w = Some request" "req_OverrideRelease request"
      and u: "list_ex (is_update_call stackName) (t @ calls (ServeHTTP_path w p))"
      and a: "Parse a \<in> set (t @ calls (ServeHTTP_path w p))" "parse w a = Inr (ch, vals, None)"
  shows "p_stackName p = stackName \<and> \<not> p_shouldCreate p \<and> req_OverrideRelease (p_request p) \<and>
         p_releaseJobValues p = None"
proof -
  have sn: "p_stackName p = stackName"
    using prepare_Inr(1) [OF eq] n by simp
  have sc: "\<not> p_shouldCreate p"
    using path_create_or_update(2) [OF eq] u sn by simp
  have "Parse a \<in> set t"
    using a(1) path_calls [of "Parse a" w p a] by auto
  from prepare_Parse [OF eq this] a(2)
  have jv: "p_releaseJobValues p = None" by simp
  have ov: "req_OverrideRelease (p_request p)"
    using prepare_Inr(6) [OF eq] r by (auto simp: builder_snd)
  from sn sc ov jv show ?thesis by simp
qed

lemma patchPorterApp_fields:
  shows "app_RepoName (patchPorterApp r a) = (if req_RepoName r = [] then app_RepoName a else req_RepoName r)"
    and "app_GitBranch (patchPorterApp r a) = (if req_GitBranch r = [] then app_GitBranch a else req_GitBranch r)"
    and "app_BuildContext (patchPorterApp r a) =
           (if req_BuildContext r = [] then app_BuildContext a else req_BuildContext r)"
    and "app_Builder (patchPorterApp r a) =
           (if req_Builder r = [] then app_Builder a
            else if req_Builder r = ''null'' then [] else req_Builder r)"
    and "app_Buildpacks (patchPorterApp r a) =
           (if req_Buildpacks r = [] then app_Buildpacks a
            else if req_Buildpacks r = ''null'' then [] else req_Buildpacks r)"
    and "app_Dockerfile (patchPorterApp r a) =
           (if req_Dockerfile r = [] then app_Dockerfile a
            else if req_Dockerfile r = ''null'' then [] else req_Dockerfile r)"
    and "app_ImageRepoURI (patchPorterApp r a) =
           (if req_ImageRepoURI r = [] then app_ImageRepoURI a else req_ImageRepoURI r)"
    and "app_PullRequestURL (patchPorterApp r a) =
           (if req_PullRequestURL r = [] then app_PullRequestURL a else req_PullRequestURL r)"
    and "app_ID (patchPorterApp r a) = app_ID a"
    and "app_Name (patchPorterApp r a) = app_Name a"
    and "app_ClusterID (patchPorterApp r a) = app_ClusterID a"
    and "app_ProjectID (patchPorterApp r a) = app_ProjectID a"
    and "app_GitRepoID (patchPorterApp r a) = app_GitRepoID a"
    and "app_PorterYamlPath (patchPorterApp r a) = app_PorterYamlPath a"
  by (simp_all add: patchPorterApp_def Let_def)

lemma strings_Split_no_sep:
  "sep \<notin> set s \<Longrightarrow> strings_Split s sep = [s]"
  by (induction s) auto

text \<open>
  The \<open>nil\<close> dereferences of lines 105 and 365 are never reached: the update path runs
  only when the probe returned a release.
\<close>

lemma installReleaseJobChart_responses:
  "Panic \<notin> set (fst (snd (installReleaseJobChart w p)))"
  by (simp add: installReleaseJobChart_def createReleaseJobChart_def
        split: sum.split option.split)

lemma create_no_panic:
  "Panic \<notin> set (responses (ServeHTTP_create w p))"
  using installReleaseJobChart_responses [of w p]
  by (auto simp: create_eq ServeHTTP_create_releaseJob_def ServeHTTP_create_record_def Let_def
           split: option.splits sum.splits if_splits)

lemma update_no_panic:
  "p_helmRelease p \<noteq> None \<Longrightarrow> Panic \<notin> set (responses (ServeHTTP_update w p))"
  using installReleaseJobChart_responses [of w p]
  by (auto simp: update_eq ServeHTTP_update_releaseJob_def ServeHTTP_update_app_def Let_def
           split: option.splits sum.splits if_splits prod.splits)

lemma ServeHTTP_no_panic:
  "Panic \<notin> set (responses (ServeHTTP w))"
proof (cases w rule: ServeHTTP_cases)
  case (abort t r)
  then show ?thesis
    using prepare_ok [of w] by simp
next
  case (path t p)
  then show ?thesis
    using prepare_Inr(4) [OF path(1)] create_no_panic [of w p] update_no_panic [of p w]
    by (auto simp: ServeHTTP_path_def)
qed

section \<open>The example requests, run\<close>

lemmas ServeHTTP_defs =
  ServeHTTP_def ServeHTTP_path_def ServeHTTP_prepare_def ServeHTTP_priorRelease_def
  ServeHTTP_builder_def ServeHTTP_create_def ServeHTTP_create_releaseJob_def
  ServeHTTP_create_record_def ServeHTTP_update_def ServeHTTP_update_releaseJob_def
  ServeHTTP_update_app_def installReleaseJobChart_def createReleaseJobChart_def
  createPorterAppEvent_def appChartConfig_def patchPorterApp_def uuid_Nil_def Let_def

lemmas example_defs =
  env_create_def env_update_def request_api_def app_none_def app_api_def release_api_def
  release_job_def parse_input_api_def calls_prepare_api_def config_api_def config_job_def
  row_new_def event_api_def env_bad_manifest_def env_install_fails_def env_name_taken_def
  env_job_absent_def request_clear_def env_clear_repo_def env_event_fails_def env_write_fails_def

lemma run_create:
  "ServeHTTP env_create =
    \<lparr>calls = calls_prepare_api @
       [CreateNamespace ''porter-stack-api'',
        LoadChartPublic ''https://charts.example/apps'' ''job'',
        InstallChart (config_job (Some [(''command'', ''migrate'')])),
        InstallChart config_api,
        ReadPorterAppByName 2 ''api'',
        UpdatePorterApp row_new,
        CreateEvent (event_api 1)],
     responses = [WriteResult (row_new\<lparr>app_ID := 5\<rparr>)]\<rparr>"
  by (simp add: ServeHTTP_defs example_defs)

lemma run_update:
  "ServeHTTP env_update =
    \<lparr>calls = calls_prepare_api @ [GetRelease ''api-r'', UninstallChart ''api-r''],
     responses = []\<rparr>"
  by (simp add: ServeHTTP_defs example_defs)

lemma run_bad_manifest:
  "ServeHTTP env_bad_manifest =
    \<lparr>calls = calls_prepare_api,
     responses =
       [HandleAPIError (ErrInternal
          ''error parsing porter.yaml into chart and values: yaml: line 3: did not find expected key'')]\<rparr>"
  by (simp add: ServeHTTP_defs example_defs)

lemma run_install_fails:
  "ServeHTTP env_install_fails =
    \<lparr>calls = calls_prepare_api @
       [CreateNamespace ''porter-stack-api'',
        LoadChartPublic ''https://charts.example/apps'' ''job'',
        InstallChart (config_job (Some [(''command'', ''migrate'')])),
        InstallChart config_api,
        UninstallChart ''api''],
     responses =
       [HandleAPIError
          (ErrPassThroughToClient ''error deploying app: timed out waiting for the condition'' 400),
        HandleAPIError (ErrInternal ''error uninstalling chart: release: not found'')]\<rparr>"
  by (simp add: ServeHTTP_defs example_defs)

lemma run_name_taken:
  "ServeHTTP env_name_taken =
    \<lparr>calls = calls_prepare_api @
       [CreateNamespace ''porter-stack-api'',
        LoadChartPublic ''https://charts.example/apps'' ''job'',
        InstallChart (config_job (Some [(''command'', ''migrate'')])),
        InstallChart config_api,
        ReadPorterAppByName 2 ''api''],
     responses =
       [HandleAPIError
          (ErrPassThroughToClient ''app with name api already exists in your project'' 403)]\<rparr>"
  by (simp add: ServeHTTP_defs example_defs)

lemma run_job_absent:
  "ServeHTTP env_job_absent =
    \<lparr>calls = calls_prepare_api @
       [GetRelease ''api-r'',
        LoadChartPublic ''https://charts.example/apps'' ''job'',
        InstallChart (config_job None),
        UpgradeInstallChart config_api,
        ReadPorterAppByName 2 ''api'',
        UpdatePorterApp app_api,
        CreateEvent (event_api 4)],
     responses = [WriteResult app_api]\<rparr>"
  by (simp add: ServeHTTP_defs example_defs)

lemma run_clear_repo:
  "ServeHTTP env_clear_repo =
    \<lparr>calls =
       [GetRelease ''api'', ListRegistriesByProjectID 1,
        Parse (parse_input_api\<lparr>pi_releaseValues := Some [(''replicas'', ''1'')],
                               pi_releaseDependencies := [''web'']\<rparr>),
        UpgradeInstallChart config_api,
        ReadPorterAppByName 2 ''api'',
        UpdatePorterApp (app_api\<lparr>app_RepoName := ''null'', app_Buildpacks := []\<rparr>),
        CreateEvent (event_api 4)],
     responses = [WriteResult (app_api\<lparr>app_RepoName := ''null'', app_Buildpacks := []\<rparr>)]\<rparr>"
  by (simp add: ServeHTTP_defs example_defs)

lemma run_event_fails:
  "ServeHTTP env_event_fails =
    \<lparr>calls = calls_prepare_api @
       [CreateNamespace ''porter-stack-api'',
        LoadChartPublic ''https://charts.example/apps'' ''job'',
        InstallChart (config_job (Some [(''command'', ''migrate'')])),
        InstallChart config_api,
        ReadPorterAppByName 2 ''api'',
        UpdatePorterApp row_new,
        CreateEvent (event_api 1)],
     responses = [WriteResult (row_new\<lparr>app_ID := 5\<rparr>)]\<rparr>"
  by (simp add: ServeHTTP_defs example_defs)

lemma run_write_fails:
  "ServeHTTP env_write_fails =
    \<lparr>calls = calls_prepare_api @
       [CreateNamespace ''porter-stack-api'',
        LoadChartPublic ''https://charts.example/apps'' ''job'',
        InstallChart (config_job (Some [(''command'', ''migrate'')])),
        InstallChart config_api,
        ReadPorterAppByName 2 ''api'',
        UpdatePorterApp row_new],
     responses = [HandleAPIError (ErrInternal ''error writing app to DB: connection refused'')]\<rparr>"
  by (simp add: ServeHTTP_defs example_defs)

section \<open>The claims\<close>

subsection \<open>C1: the release job on an update that overrides the release\<close>

text \<open>
  Claim C1 gives the action on the release job as a table over whether the release job
  exists and whether the manifest asks for one, and says that nothing is done when it
  does not exist and no values are asked for. The update path does not do that: lines 239
  to 262 install the release job whenever the probe of \<open>stackName-r\<close> fails, without
  looking at the values (the create path, line 149, does look). For every update that
  overrides the release, finds no release job and has \<open>nil\<close> release job values, a
  release \<open>stackName-r\<close> of the \<open>job\<close> chart is installed with \<open>nil\<close> values, and it is the
  first change made to the cluster.
\<close>

theorem update_installs_job_without_values:
  assumes "GetURLParamString w = Inr stackName"
      and "DecodeAndValidate w = Some request" and "req_OverrideRelease request"
      and "takesUpdatePath stackName (ServeHTTP w)"
      and "Parse a \<in> set (calls (ServeHTTP w))" and "parse w a = Inr (ch, vals, None)"
      and "helm_GetRelease w (stackName @ ''-r'') = Inl err"
      and "loader_LoadChartPublic w (conf_DefaultApplicationHelmRepoURL w) ''job'' = Inr jobChart"
  shows "\<exists>t rest cj. calls (ServeHTTP w) = t @ InstallChart cj # rest
           \<and> \<not> list_ex is_cluster_mutation t
           \<and> icc_Chart cj = jobChart \<and> icc_Name cj = stackName @ ''-r''
           \<and> icc_Namespace cj = ''porter-stack-'' @ stackName \<and> icc_Values cj = None"
proof (cases w rule: ServeHTTP_cases)
  case (abort t r)
  with assms(4) show ?thesis
    using prepare_call [OF abort(1), of _ stackName] assms(1)
    by (auto simp: takesUpdatePath_def list_ex_iff)
next
  case (path t p)
  from update_branch [OF path(1) assms(1,2,3) _ _ assms(6)] assms(4,5) path(2)
  have b: "p_stackName p = stackName" "\<not> p_shouldCreate p" "req_OverrideRelease (p_request p)"
          "p_releaseJobValues p = None"
    by (simp_all add: takesUpdatePath_def)
  let ?cj = "\<lparr>icc_Chart = jobChart, icc_Name = stackName @ ''-r'',
               icc_Namespace = ''porter-stack-'' @ stackName, icc_Values = None,
               icc_Registries = p_registries p\<rparr>"
  let ?pre = "t @ [GetRelease (stackName @ ''-r''),
                   LoadChartPublic (conf_DefaultApplicationHelmRepoURL w) ''job'']"
  have "\<exists>rest. fst (ServeHTTP_update_releaseJob w p) =
           [GetRelease (stackName @ ''-r''),
            LoadChartPublic (conf_DefaultApplicationHelmRepoURL w) ''job'', InstallChart ?cj] @ rest"
    using b assms(7,8)
    by (simp add: ServeHTTP_update_releaseJob_def installReleaseJobChart_def
          createReleaseJobChart_def Let_def split: option.split)
  then obtain rest where "fst (ServeHTTP_update_releaseJob w p) =
           [GetRelease (stackName @ ''-r''),
            LoadChartPublic (conf_DefaultApplicationHelmRepoURL w) ''job'', InstallChart ?cj] @ rest"
    by blast
  then have "\<exists>rest'. calls (ServeHTTP w) = ?pre @ InstallChart ?cj # rest'"
    using path(2) b(2) by (simp add: ServeHTTP_path_def update_eq Let_def)
  moreover have "\<not> list_ex is_cluster_mutation ?pre"
    using prepare_call [OF path(1)] by (auto simp: list_ex_iff)
  ultimately show ?thesis
    by (metis InstallChartConfig.select_convs(1,2,3,4))
qed

text \<open>
  The theorem at the redeploy of \<open>api\<close> without a release job: the cluster sees the
  install of \<open>api-r\<close> with no values, then the upgrade of \<open>api\<close>.
\<close>

theorem update_installs_job_without_values_witness:
  "GetURLParamString env_job_absent = Inr ''api''
   \<and> DecodeAndValidate env_job_absent = Some request_api \<and> req_OverrideRelease request_api
   \<and> takesUpdatePath ''api'' (ServeHTTP env_job_absent)
   \<and> Parse parse_input_api \<in> set (calls (ServeHTTP env_job_absent))
   \<and> parse env_job_absent parse_input_api = Inr (''web'', Some [(''replicas'', ''1'')], None)
   \<and> helm_GetRelease env_job_absent ''api-r'' = Inl ''release: not found''
   \<and> loader_LoadChartPublic env_job_absent ''https://charts.example/apps'' ''job'' = Inr ''job''
   \<and> (\<exists>t rest cj. calls (ServeHTTP env_job_absent) = t @ InstallChart cj # rest
          \<and> \<not> list_ex is_cluster_mutation t
          \<and> icc_Chart cj = ''job'' \<and> icc_Name cj = ''api-r''
          \<and> icc_Namespace cj = ''porter-stack-api'' \<and> icc_Values cj = None)
   \<and> filter is_cluster_mutation (calls (ServeHTTP env_job_absent)) =
        [InstallChart (config_job None), UpgradeInstallChart config_api]"
proof -
  have f: "GetURLParamString env_job_absent = Inr ''api''"
    "DecodeAndValidate env_job_absent = Some request_api" "req_OverrideRelease request_api"
    "parse env_job_absent parse_input_api = Inr (''web'', Some [(''replicas'', ''1'')], None)"
    "helm_GetRelease env_job_absent (''api'' @ ''-r'') = Inl ''release: not found''"
    "loader_LoadChartPublic env_job_absent (conf_DefaultApplicationHelmRepoURL env_job_absent)
       ''job'' = Inr ''job''"
    by (simp_all add: env_job_absent_def env_update_def env_create_def request_api_def)
  have r: "takesUpdatePath ''api'' (ServeHTTP env_job_absent)"
    "Parse parse_input_api \<in> set (calls (ServeHTTP env_job_absent))"
    by (simp_all add: run_job_absent takesUpdatePath_def calls_prepare_api_def)
  note h = f(1,2,3) r f(4,5,6)
  have c: "\<exists>t rest cj. calls (ServeHTTP env_job_absent) = t @ InstallChart cj # rest
          \<and> \<not> list_ex is_cluster_mutation t
          \<and> icc_Chart cj = ''job'' \<and> icc_Name cj = ''api-r''
          \<and> icc_Namespace cj = ''porter-stack-api'' \<and> icc_Values cj = None"
    using update_installs_job_without_values [OF h] by simp
  have e: "filter is_cluster_mutation (calls (ServeHTTP env_job_absent)) =
        [InstallChart (config_job None), UpgradeInstallChart config_api]"
    by (simp add: run_job_absent calls_prepare_api_def)
  have u: "conf_DefaultApplicationHelmRepoURL env_job_absent = ''https://charts.example/apps''"
    by (simp add: env_job_absent_def env_update_def env_create_def)
  show ?thesis
    using h c e u by simp
qed

subsection \<open>C2: an update that removes the release job\<close>

text \<open>
  Claim C2 says that an update with no release job values, where the release job exists,
  uninstalls the release job, then upgrades the main release and appends the event with
  the prior version plus one. The handler stops after the uninstall: the \<open>return\<close> of
  line 272 stands outside the test of the error. For every update that overrides the
  release, finds the release job and has \<open>nil\<close> release job values, the uninstall of
  \<open>stackName-r\<close> is the only change made to the cluster, nothing is written to the
  store, and the response is empty unless the uninstall failed.
\<close>

theorem update_returns_after_job_uninstall:
  assumes "GetURLParamString w = Inr stackName"
      and "DecodeAndValidate w = Some request" and "req_OverrideRelease request"
      and "takesUpdatePath stackName (ServeHTTP w)"
      and "Parse a \<in> set (calls (ServeHTTP w))" and "parse w a = Inr (ch, vals, None)"
      and "helm_GetRelease w (stackName @ ''-r'') = Inr jobRelease"
  shows "filter is_cluster_mutation (calls (ServeHTTP w)) = [UninstallChart (stackName @ ''-r'')]
       \<and> \<not> list_ex is_db_write (calls (ServeHTTP w))
       \<and> responses (ServeHTTP w) =
           (case helm_UninstallChart w (stackName @ ''-r'') of
              Some err \<Rightarrow>
                [HandleAPIError (ErrInternal (''error uninstalling release job chart: '' @ err))]
            | None \<Rightarrow> [])"
proof (cases w rule: ServeHTTP_cases)
  case (abort t r)
  with assms(4) show ?thesis
    using prepare_call [OF abort(1), of _ stackName] assms(1)
    by (auto simp: takesUpdatePath_def list_ex_iff)
next
  case (path t p)
  from update_branch [OF path(1) assms(1,2,3) _ _ assms(6)] assms(4,5) path(2)
  have b: "p_stackName p = stackName" "\<not> p_shouldCreate p" "req_OverrideRelease (p_request p)"
          "p_releaseJobValues p = None"
    by (simp_all add: takesUpdatePath_def)
  have j: "ServeHTTP_update_releaseJob w p =
             ([GetRelease (stackName @ ''-r''), UninstallChart (stackName @ ''-r'')],
              (case helm_UninstallChart w (stackName @ ''-r'') of
                 Some err \<Rightarrow>
                   [HandleAPIError (ErrInternal (''error uninstalling release job chart: '' @ err))]
               | None \<Rightarrow> []),
              False)"
    using b assms(7) by (simp add: ServeHTTP_update_releaseJob_def Let_def)
  have t: "filter is_cluster_mutation t = []" "\<forall>c \<in> set t. \<not> is_db_write c"
    using prepare_call [OF path(1)] by (auto simp: filter_empty_conv)
  show ?thesis
    using path(2) b(2) j t
    by (simp add: ServeHTTP_path_def update_eq Let_def list_ex_iff)
qed

text \<open>
  The theorem at the redeploy of \<open>api\<close> whose release job exists: one uninstall, no
  upgrade, no row, no event, no response.
\<close>

theorem update_returns_after_job_uninstall_witness:
  "GetURLParamString env_update = Inr ''api''
   \<and> DecodeAndValidate env_update = Some request_api \<and> req_OverrideRelease request_api
   \<and> takesUpdatePath ''api'' (ServeHTTP env_update)
   \<and> Parse parse_input_api \<in> set (calls (ServeHTTP env_update))
   \<and> parse env_update parse_input_api = Inr (''web'', Some [(''replicas'', ''1'')], None)
   \<and> helm_GetRelease env_update ''api-r'' = Inr release_job
   \<and> helm_UninstallChart env_update ''api-r'' = None
   \<and> filter is_cluster_mutation (calls (ServeHTTP env_update)) = [UninstallChart ''api-r'']
   \<and> \<not> list_ex is_db_write (calls (ServeHTTP env_update))
   \<and> responses (ServeHTTP env_update) = []"
proof -
  have f: "GetURLParamString env_update = Inr ''api''"
    "DecodeAndValidate env_update = Some request_api" "req_OverrideRelease request_api"
    "parse env_update parse_input_api = Inr (''web'', Some [(''replicas'', ''1'')], None)"
    "helm_GetRelease env_update (''api'' @ ''-r'') = Inr release_job"
    by (simp_all add: env_update_def env_create_def request_api_def)
  have r: "takesUpdatePath ''api'' (ServeHTTP env_update)"
    "Parse parse_input_api \<in> set (calls (ServeHTTP env_update))"
    by (simp_all add: run_update takesUpdatePath_def calls_prepare_api_def)
  note h = f(1,2,3) r f(4,5)
  have u: "helm_UninstallChart env_update ''api-r'' = None"
    by (simp add: env_update_def env_create_def)
  have c: "filter is_cluster_mutation (calls (ServeHTTP env_update)) = [UninstallChart ''api-r'']
       \<and> \<not> list_ex is_db_write (calls (ServeHTTP env_update))
       \<and> responses (ServeHTTP env_update) = []"
    using update_returns_after_job_uninstall [OF h] u by simp
  show ?thesis
    using h c u by simp
qed

subsection \<open>C3: the probe selects the path\<close>

text \<open>
  Claim C3, amended. The claim speaks of every deploy request; a request that fails
  before line 140 (decoding, the agents, the manifest, the registries, \<open>parse\<close>) takes
  neither path whatever the probe returned. For a request whose manifest compiles, the
  handler takes the create path exactly when the probe of the main release returned an
  error and the update path exactly when the probe succeeded; a request whose manifest
  does not compile takes neither; no request takes both.
\<close>

theorem path_follows_probe:
  assumes "GetURLParamString w = Inr stackName"
  shows "(takesCreatePath (ServeHTTP w) \<longleftrightarrow>
            (\<exists>a. Parse a \<in> set (calls (ServeHTTP w)) \<and> \<not> isl (parse w a)) \<and>
            isl (helm_GetRelease w stackName))
       \<and> (takesUpdatePath stackName (ServeHTTP w) \<longleftrightarrow>
            (\<exists>a. Parse a \<in> set (calls (ServeHTTP w)) \<and> \<not> isl (parse w a)) \<and>
            \<not> isl (helm_GetRelease w stackName))
       \<and> \<not> (takesCreatePath (ServeHTTP w) \<and> takesUpdatePath stackName (ServeHTTP w))"
proof (cases w rule: ServeHTTP_cases)
  case (abort t r)
  have no: "\<forall>c \<in> set t. \<not> is_create_call c \<and> \<not> is_update_call stackName c"
    using prepare_call [OF abort(1)] assms by blast
  have "isl (parse w a)" if "Parse a \<in> set t" for a
    using prepare_Parse [OF abort(1) that] by (cases "parse w a") auto
  with no abort(2) show ?thesis
    by (auto simp: takesCreatePath_def takesUpdatePath_def list_ex_iff)
next
  case (path t p)
  have n: "p_stackName p = stackName"
    using prepare_Inr(1) [OF path(1)] assms by simp
  have ok: "\<exists>a. Parse a \<in> set (calls (ServeHTTP w)) \<and> \<not> isl (parse w a)"
    using prepare_Inr(5) [OF path(1)] path(2) by auto
  have sc: "p_shouldCreate p = isl (helm_GetRelease w stackName)"
    using prepare_Inr(3) [OF path(1)] n by simp
  show ?thesis
    using path_create_or_update [OF path(1)] path(2) n ok sc
    by (simp add: takesCreatePath_def takesUpdatePath_def)
qed

text \<open>
  The theorem at the first deploy of \<open>api\<close> (the probe fails, the create path is taken)
  and at a redeploy (the probe succeeds, the update path is taken).
\<close>

theorem path_follows_probe_witness:
  "GetURLParamString env_create = Inr ''api''
   \<and> isl (helm_GetRelease env_create ''api'')
   \<and> takesCreatePath (ServeHTTP env_create) \<and> \<not> takesUpdatePath ''api'' (ServeHTTP env_create)
   \<and> GetURLParamString env_clear_repo = Inr ''api''
   \<and> \<not> isl (helm_GetRelease env_clear_repo ''api'')
   \<and> takesUpdatePath ''api'' (ServeHTTP env_clear_repo) \<and> \<not> takesCreatePath (ServeHTTP env_clear_repo)"
proof -
  have h1: "GetURLParamString env_create = Inr ''api''"
    and e1: "isl (helm_GetRelease env_create ''api'')"
    and q1: "\<not> isl (parse env_create parse_input_api)"
    by (simp_all add: env_create_def)
  have "Parse parse_input_api \<in> set (calls (ServeHTTP env_create))"
    by (simp add: run_create calls_prepare_api_def)
  with q1 have p1: "\<exists>a. Parse a \<in> set (calls (ServeHTTP env_create)) \<and> \<not> isl (parse env_create a)"
    by blast
  let ?a = "parse_input_api\<lparr>pi_releaseValues := Some [(''replicas'', ''1'')],
                             pi_releaseDependencies := [''web'']\<rparr>"
  have h2: "GetURLParamString env_clear_repo = Inr ''api''"
    and e2: "\<not> isl (helm_GetRelease env_clear_repo ''api'')"
    and q2: "\<not> isl (parse env_clear_repo ?a)"
    by (simp_all add: env_clear_repo_def env_update_def env_create_def)
  have "Parse ?a \<in> set (calls (ServeHTTP env_clear_repo))"
    by (simp add: run_clear_repo)
  with q2 have p2: "\<exists>a. Parse a \<in> set (calls (ServeHTTP env_clear_repo)) \<and> \<not> isl (parse env_clear_repo a)"
    by blast
  have c1: "takesCreatePath (ServeHTTP env_create) \<and> \<not> takesUpdatePath ''api'' (ServeHTTP env_create)"
    using path_follows_probe [OF h1] p1 e1 by blast
  have c2: "takesUpdatePath ''api'' (ServeHTTP env_clear_repo) \<and> \<not> takesCreatePath (ServeHTTP env_clear_repo)"
    using path_follows_probe [OF h2] p2 e2 by blast
  show ?thesis
    using h1 e1 c1 h2 e2 c2 by simp
qed

text \<open>
  Against claim C3 as stated: the probe of \<open>api\<close> returns an error, the manifest does
  not compile, and the create path is not taken.
\<close>

theorem probe_error_without_create_path:
  "GetURLParamString env_bad_manifest = Inr ''api''
   \<and> helm_GetRelease env_bad_manifest ''api'' = Inl ''release: not found''
   \<and> \<not> takesCreatePath (ServeHTTP env_bad_manifest)"
proof -
  have "GetURLParamString env_bad_manifest = Inr ''api''"
    and "helm_GetRelease env_bad_manifest ''api'' = Inl ''release: not found''"
    by (simp_all add: env_bad_manifest_def env_create_def)
  moreover have "\<not> takesCreatePath (ServeHTTP env_bad_manifest)"
    by (simp add: run_bad_manifest takesCreatePath_def calls_prepare_api_def)
  ultimately show ?thesis
    by simp
qed

subsection \<open>C4: a manifest that does not compile\<close>

text \<open>
  Claim C4. When \<open>parse\<close> fails, the handler reports that error and nothing else, and
  has made no call that changes the cluster (no namespace, no install, upgrade or
  uninstall) and no write to the store. \<open>parse\<close> itself is a parameter here: what it
  does inside is not part of the handler.
\<close>

theorem parse_failure_aborts_before_any_mutation:
  assumes "Parse a \<in> set (calls (ServeHTTP w))" and "parse w a = Inl err"
  shows "responses (ServeHTTP w) =
           [HandleAPIError (ErrInternal (''error parsing porter.yaml into chart and values: '' @ err))]
       \<and> \<not> list_ex is_cluster_mutation (calls (ServeHTTP w))
       \<and> \<not> list_ex is_db_write (calls (ServeHTTP w))"
proof (cases w rule: ServeHTTP_cases)
  case (abort t r)
  with assms(1) have "Parse a \<in> set t" by simp
  with abort(1) assms(2) have "r = HandleAPIError (ErrInternal
      (''error parsing porter.yaml into chart and values: '' @ err))"
    using prepare_Parse [of w t "Inl r" a] by simp
  moreover have "\<forall>c \<in> set t. \<not> is_cluster_mutation c \<and> \<not> is_db_write c"
    using prepare_call [OF abort(1)] by blast
  ultimately show ?thesis
    using abort(2) by (simp add: list_ex_iff)
next
  case (path t p)
  with assms(1) have "Parse a \<in> set t"
    using path_calls [of "Parse a" w p a] by auto
  with path(1) assms(2) show ?thesis
    using prepare_Parse [of w t "Inr p" a] by simp
qed

text \<open>The theorem at the deploy of \<open>api\<close> with a broken manifest.\<close>

theorem parse_failure_aborts_before_any_mutation_witness:
  "Parse parse_input_api \<in> set (calls (ServeHTTP env_bad_manifest))
   \<and> parse env_bad_manifest parse_input_api = Inl ''yaml: line 3: did not find expected key''
   \<and> responses (ServeHTTP env_bad_manifest) =
       [HandleAPIError (ErrInternal
          ''error parsing porter.yaml into chart and values: yaml: line 3: did not find expected key'')]
   \<and> \<not> list_ex is_cluster_mutation (calls (ServeHTTP env_bad_manifest))
   \<and> \<not> list_ex is_db_write (calls (ServeHTTP env_bad_manifest))"
proof -
  have h1: "Parse parse_input_api \<in> set (calls (ServeHTTP env_bad_manifest))"
    by (simp add: run_bad_manifest calls_prepare_api_def)
  have h2: "parse env_bad_manifest parse_input_api = Inl ''yaml: line 3: did not find expected key''"
    by (simp add: env_bad_manifest_def)
  note h = h1 h2
  show ?thesis
    using h parse_failure_aborts_before_any_mutation [OF h] by simp
qed

subsection \<open>C5: the install of the main release fails\<close>

text \<open>
  Claim C5. The main release is installed only on the create path. When that install
  fails, the uninstall of the same release is the next and last call; the response
  holds the install error first and, when the uninstall fails too, the uninstall error
  after it; no row and no event are written.
\<close>

theorem create_install_failure_rolls_back:
  assumes "GetURLParamString w = Inr stackName"
      and "InstallChart c \<in> set (calls (ServeHTTP w))" and "icc_Name c = stackName"
      and "helm_InstallChart w c = Some err"
  shows "takesCreatePath (ServeHTTP w)
       \<and> (\<exists>t. calls (ServeHTTP w) = t @ [InstallChart c, UninstallChart stackName])
       \<and> responses (ServeHTTP w) =
           HandleAPIError (ErrPassThroughToClient (''error deploying app: '' @ err) 400) #
           (case helm_UninstallChart w stackName of
              Some err' \<Rightarrow> [HandleAPIError (ErrInternal (''error uninstalling chart: '' @ err'))]
            | None \<Rightarrow> [])
       \<and> \<not> list_ex is_db_write (calls (ServeHTTP w))"
proof (cases w rule: ServeHTTP_cases)
  case (abort t r)
  with assms(2) show ?thesis
    using prepare_call [OF abort(1), of "InstallChart c"] by auto
next
  case (path t p)
  have n: "p_stackName p = stackName"
    using prepare_Inr(1) [OF path(1)] assms(1) by simp
  from main_install_on_create [OF path(1), of c] assms(2,3) path(2) n
  have m: "p_shouldCreate p" "c = appChartConfig p" "k8s_CreateNamespace w (p_namespace p) = None"
          "snd (snd (ServeHTTP_create_releaseJob w p))"
    by simp_all
  let ?j = "fst (ServeHTTP_create_releaseJob w p)"
  have cr: "ServeHTTP_create w p =
      \<lparr>calls = CreateNamespace (p_namespace p) # ?j @ [InstallChart c, UninstallChart stackName],
       responses =
         HandleAPIError (ErrPassThroughToClient (''error deploying app: '' @ err) 400) #
         (case helm_UninstallChart w stackName of
            Some err' \<Rightarrow> [HandleAPIError (ErrInternal (''error uninstalling chart: '' @ err'))]
          | None \<Rightarrow> [])\<rparr>"
    using m assms(4) n by (simp add: create_eq Let_def)
  have w1: "\<forall>x \<in> set t. \<not> is_db_write x"
    using prepare_call [OF path(1)] by blast
  have w2: "\<forall>x \<in> set ?j. \<not> is_db_write x"
    using create_releaseJob_calls [of w p] by auto
  have "calls (ServeHTTP w) =
          (t @ CreateNamespace (p_namespace p) # ?j) @ [InstallChart c, UninstallChart stackName]"
    using path(2) m(1) cr by (simp add: ServeHTTP_path_def)
  then have "\<exists>t'. calls (ServeHTTP w) = t' @ [InstallChart c, UninstallChart stackName]"
    by blast
  then show ?thesis
    using path(2) m(1) cr w1 w2
    by (auto simp: ServeHTTP_path_def takesCreatePath_def list_ex_iff)
qed

text \<open>The theorem at a first deploy of \<open>api\<close> where install and uninstall both fail.\<close>

theorem create_install_failure_rolls_back_witness:
  "GetURLParamString env_install_fails = Inr ''api''
   \<and> InstallChart config_api \<in> set (calls (ServeHTTP env_install_fails))
   \<and> icc_Name config_api = ''api''
   \<and> helm_InstallChart env_install_fails config_api = Some ''timed out waiting for the condition''
   \<and> helm_UninstallChart env_install_fails ''api'' = Some ''release: not found''
   \<and> takesCreatePath (ServeHTTP env_install_fails)
   \<and> (\<exists>t. calls (ServeHTTP env_install_fails) = t @ [InstallChart config_api, UninstallChart ''api''])
   \<and> responses (ServeHTTP env_install_fails) =
       [HandleAPIError
          (ErrPassThroughToClient ''error deploying app: timed out waiting for the condition'' 400),
        HandleAPIError (ErrInternal ''error uninstalling chart: release: not found'')]
   \<and> \<not> list_ex is_db_write (calls (ServeHTTP env_install_fails))"
proof -
  have f: "GetURLParamString env_install_fails = Inr ''api''"
    "icc_Name config_api = ''api''"
    "helm_InstallChart env_install_fails config_api = Some ''timed out waiting for the condition''"
    by (simp_all add: env_install_fails_def env_create_def config_api_def)
  have r: "InstallChart config_api \<in> set (calls (ServeHTTP env_install_fails))"
    by (simp add: run_install_fails)
  note h = f(1) r f(2,3)
  have u: "helm_UninstallChart env_install_fails ''api'' = Some ''release: not found''"
    by (simp add: env_install_fails_def env_create_def)
  show ?thesis
    using h u create_install_failure_rolls_back [OF h] by simp
qed

subsection \<open>C6: the name is taken\<close>

text \<open>
  Claim C6. On the create path, after the main release has been installed, a row read
  back with a name (line 201) makes the handler answer with the pass-through error of
  status 403, which is not the internal error, and write neither a row nor an event; a
  write to the store happens only when the read returned a row without a name.
\<close>

theorem create_conflict_writes_nothing:
  assumes "GetURLParamString w = Inr stackName"
      and "InstallChart c \<in> set (calls (ServeHTTP w))" and "icc_Name c = stackName"
      and "helm_InstallChart w c = None"
  shows "takesCreatePath (ServeHTTP w)
       \<and> (\<forall>existing.
             repo_ReadPorterAppByName w 1 (ctx_cluster_ID w) stackName = Inr existing \<and>
             app_Name existing \<noteq> [] \<longrightarrow>
               responses (ServeHTTP w) =
                 [HandleAPIError (ErrPassThroughToClient
                    (''app with name '' @ app_Name existing @ '' already exists in your project'') 403)]
               \<and> \<not> list_ex is_db_write (calls (ServeHTTP w)))
       \<and> (list_ex is_db_write (calls (ServeHTTP w)) \<longrightarrow>
             (\<exists>existing.
                repo_ReadPorterAppByName w 1 (ctx_cluster_ID w) stackName = Inr existing \<and>
                app_Name existing = []))"
proof (cases w rule: ServeHTTP_cases)
  case (abort t r)
  with assms(2) show ?thesis
    using prepare_call [OF abort(1), of "InstallChart c"] by auto
next
  case (path t p)
  have n: "p_stackName p = stackName"
    using prepare_Inr(1) [OF path(1)] assms(1) by simp
  from main_install_on_create [OF path(1), of c] assms(2,3) path(2) n
  have m: "p_shouldCreate p" "c = appChartConfig p" "k8s_CreateNamespace w (p_namespace p) = None"
          "snd (snd (ServeHTTP_create_releaseJob w p))"
    by simp_all
  let ?j = "fst (ServeHTTP_create_releaseJob w p)"
  let ?r = "ServeHTTP_create_record w p"
  have cr: "ServeHTTP_create w p =
      \<lparr>calls = CreateNamespace (p_namespace p) # ?j @ InstallChart c # calls ?r,
       responses = responses ?r\<rparr>"
    using m assms(4) by (simp add: create_eq Let_def)
  have w1: "\<forall>x \<in> set t. \<not> is_db_write x"
    using prepare_call [OF path(1)] by blast
  have w2: "\<forall>x \<in> set ?j. \<not> is_db_write x"
    using create_releaseJob_calls [of w p] by auto
  have takes: "takesCreatePath (ServeHTTP w)"
    using path(2) m(1) cr by (simp add: ServeHTTP_path_def takesCreatePath_def)
  have conflict: "responses (ServeHTTP w) =
                 [HandleAPIError (ErrPassThroughToClient
                    (''app with name '' @ app_Name existing @ '' already exists in your project'') 403)]
               \<and> \<not> list_ex is_db_write (calls (ServeHTTP w))"
    if "repo_ReadPorterAppByName w 1 (ctx_cluster_ID w) stackName = Inr existing"
      and "app_Name existing \<noteq> []" for existing
    using create_record_conflict [of w p existing] that n path(2) m(1) cr w1 w2
    by (auto simp: ServeHTTP_path_def list_ex_iff)
  have only: "\<exists>existing.
                repo_ReadPorterAppByName w 1 (ctx_cluster_ID w) stackName = Inr existing \<and>
                app_Name existing = []"
    if "list_ex is_db_write (calls (ServeHTTP w))"
  proof -
    from that have "list_ex is_db_write (calls (ServeHTTP_create w p))"
      using path(2) m(1) w1 by (auto simp: ServeHTTP_path_def list_ex_iff)
    from create_db_write [OF this] n show ?thesis by simp
  qed
  from takes conflict only show ?thesis by blast
qed

text \<open>The theorem at a first deploy of \<open>api\<close> whose row already exists.\<close>

theorem create_conflict_writes_nothing_witness:
  "GetURLParamString env_name_taken = Inr ''api''
   \<and> InstallChart config_api \<in> set (calls (ServeHTTP env_name_taken))
   \<and> icc_Name config_api = ''api''
   \<and> helm_InstallChart env_name_taken config_api = None
   \<and> repo_ReadPorterAppByName env_name_taken 1 (ctx_cluster_ID env_name_taken) ''api'' = Inr app_api
   \<and> app_Name app_api \<noteq> []
   \<and> takesCreatePath (ServeHTTP env_name_taken)
   \<and> responses (ServeHTTP env_name_taken) =
       [HandleAPIError
          (ErrPassThroughToClient ''app with name api already exists in your project'' 403)]
   \<and> \<not> list_ex is_db_write (calls (ServeHTTP env_name_taken))"
proof -
  have f: "GetURLParamString env_name_taken = Inr ''api''"
    "icc_Name config_api = ''api''"
    "helm_InstallChart env_name_taken config_api = None"
    by (simp_all add: env_name_taken_def env_create_def config_api_def)
  have t: "InstallChart config_api \<in> set (calls (ServeHTTP env_name_taken))"
    by (simp add: run_name_taken)
  note h = f(1) t f(2,3)
  have r: "repo_ReadPorterAppByName env_name_taken 1 (ctx_cluster_ID env_name_taken) ''api'' =
             Inr app_api \<and> app_Name app_api \<noteq> []"
    by (simp add: env_name_taken_def env_create_def app_api_def)
  have n: "app_Name app_api = ''api''"
    by (simp add: app_api_def)
  from create_conflict_writes_nothing [OF h] r
  have c: "takesCreatePath (ServeHTTP env_name_taken)
       \<and> responses (ServeHTTP env_name_taken) =
           [HandleAPIError (ErrPassThroughToClient
              (''app with name '' @ app_Name app_api @ '' already exists in your project'') 403)]
       \<and> \<not> list_ex is_db_write (calls (ServeHTTP env_name_taken))"
    by blast
  show ?thesis
    using h r c by (simp add: n)
qed

subsection \<open>C7: the field rules of the update path\<close>

text \<open>
  Claim C7, amended. The sentinel \<open>null\<close> clears only the builder, the buildpacks and
  the dockerfile; for the repository name, the branch, the build context, the image
  repository and the pull request URL every non-empty value, \<open>null\<close> included, is
  stored as it is. An empty value leaves the field as read. The builder follows its rule
  on the value the request has at line 331: its own builder or, when that is empty,
  the builder of the row found by the lookup of line 111. The id, the name, the cluster,
  the project, the git repository id and the manifest path are not changed.
\<close>

theorem update_applies_field_rules:
  assumes "GetURLParamString w = Inr stackName" and "DecodeAndValidate w = Some request"
      and "takesUpdatePath stackName (ServeHTTP w)"
      and "UpdatePorterApp app' \<in> set (calls (ServeHTTP w))"
  shows "\<exists>app builder.
           repo_ReadPorterAppByName w 1 (ctx_cluster_ID w) stackName = Inr app \<and>
           builder = (if req_Builder request = [] then
                        (case repo_ReadPorterAppByName w 0 (ctx_cluster_ID w) stackName of
                           Inl err \<Rightarrow> [] | Inr stored \<Rightarrow> app_Builder stored)
                      else req_Builder request) \<and>
           app_RepoName app' =
             (if req_RepoName request = [] then app_RepoName app else req_RepoName request) \<and>
           app_GitBranch app' =
             (if req_GitBranch request = [] then app_GitBranch app else req_GitBranch request) \<and>
           app_BuildContext app' =
             (if req_BuildContext request = [] then app_BuildContext app
              else req_BuildContext request) \<and>
           app_ImageRepoURI app' =
             (if req_ImageRepoURI request = [] then app_ImageRepoURI app
              else req_ImageRepoURI request) \<and>
           app_PullRequestURL app' =
             (if req_PullRequestURL request = [] then app_PullRequestURL app
              else req_PullRequestURL request) \<and>
           app_Buildpacks app' =
             (if req_Buildpacks request = [] then app_Buildpacks app
              else if req_Buildpacks request = ''null'' then [] else req_Buildpacks request) \<and>
           app_Dockerfile app' =
             (if req_Dockerfile request = [] then app_Dockerfile app
              else if req_Dockerfile request = ''null'' then [] else req_Dockerfile request) \<and>
           app_Builder app' =
             (if builder = [] then app_Builder app
              else if builder = ''null'' then [] else builder) \<and>
           app_ID app' = app_ID app \<and> app_Name app' = app_Name app \<and>
           app_ClusterID app' = app_ClusterID app \<and> app_ProjectID app' = app_ProjectID app \<and>
           app_GitRepoID app' = app_GitRepoID app \<and>
           app_PorterYamlPath app' = app_PorterYamlPath app"
proof (cases w rule: ServeHTTP_cases)
  case (abort t r)
  with assms(4) show ?thesis
    using prepare_call [OF abort(1), of "UpdatePorterApp app'"] by auto
next
  case (path t p)
  have n: "p_stackName p = stackName"
    using prepare_Inr(1) [OF path(1)] assms(1) by simp
  have sc: "\<not> p_shouldCreate p"
    using path_create_or_update(2) [OF path(1)] assms(3) path(2) n
    by (simp add: takesUpdatePath_def)
  have "UpdatePorterApp app' \<notin> set t"
    using prepare_call [OF path(1), of "UpdatePorterApp app'"] by auto
  with assms(4) path(2) sc have "UpdatePorterApp app' \<in> set (calls (ServeHTTP_update w p))"
    by (simp add: ServeHTTP_path_def)
  from update_UpdatePorterApp [OF this] n obtain app where
    app: "repo_ReadPorterAppByName w 1 (ctx_cluster_ID w) stackName = Inr app"
         "app' = patchPorterApp (p_request p) app"
    by auto
  have req: "p_request p = request\<lparr>req_Builder :=
       (if req_Builder request = [] then
          (case repo_ReadPorterAppByName w 0 (ctx_cluster_ID w) stackName of
             Inl err \<Rightarrow> [] | Inr a0 \<Rightarrow> app_Builder a0)
        else req_Builder request)\<rparr>"
    using prepare_Inr(6) [OF path(1)] assms(2) n by (simp add: builder_snd)
  show ?thesis
    using app(1) unfolding app(2) req
    by (simp add: patchPorterApp_fields)
qed

text \<open>
  The theorem at a redeploy of \<open>api\<close> that sends \<open>null\<close> as repository name and as
  buildpacks: the buildpacks are cleared, the repository name becomes \<open>null\<close>.
\<close>

theorem update_applies_field_rules_witness:
  "GetURLParamString env_clear_repo = Inr ''api''
   \<and> DecodeAndValidate env_clear_repo = Some request_clear
   \<and> takesUpdatePath ''api'' (ServeHTTP env_clear_repo)
   \<and> UpdatePorterApp (app_api\<lparr>app_RepoName := ''null'', app_Buildpacks := []\<rparr>)
        \<in> set (calls (ServeHTTP env_clear_repo))
   \<and> repo_ReadPorterAppByName env_clear_repo 1 (ctx_cluster_ID env_clear_repo) ''api'' = Inr app_api
   \<and> req_RepoName request_clear = ''null'' \<and> req_Buildpacks request_clear = ''null''
   \<and> req_Dockerfile request_clear = []
   \<and> app_RepoName (app_api\<lparr>app_RepoName := ''null'', app_Buildpacks := []\<rparr>) = ''null''
   \<and> app_Buildpacks (app_api\<lparr>app_RepoName := ''null'', app_Buildpacks := []\<rparr>) = []
   \<and> app_Dockerfile (app_api\<lparr>app_RepoName := ''null'', app_Buildpacks := []\<rparr>) = app_Dockerfile app_api"
proof -
  let ?a = "app_api\<lparr>app_RepoName := ''null'', app_Buildpacks := []\<rparr>"
  have f: "GetURLParamString env_clear_repo = Inr ''api''"
    "DecodeAndValidate env_clear_repo = Some request_clear"
    by (simp_all add: env_clear_repo_def env_update_def env_create_def)
  have t: "takesUpdatePath ''api'' (ServeHTTP env_clear_repo)"
    "UpdatePorterApp ?a \<in> set (calls (ServeHTTP env_clear_repo))"
    by (simp_all add: run_clear_repo takesUpdatePath_def)
  note h = f t
  have r: "repo_ReadPorterAppByName env_clear_repo 1 (ctx_cluster_ID env_clear_repo) ''api'' = Inr app_api"
    "req_RepoName request_clear = ''null''" "req_Buildpacks request_clear = ''null''"
    "req_Dockerfile request_clear = []"
    by (simp_all add: env_clear_repo_def env_update_def env_create_def request_clear_def
          request_api_def)
  from update_applies_field_rules [OF h] r
  have c: "app_RepoName ?a = ''null'' \<and> app_Buildpacks ?a = [] \<and> app_Dockerfile ?a = app_Dockerfile app_api"
    by auto
  show ?thesis
    using h r c by simp
qed

text \<open>
  Against claim C7 as stated: the request sends the sentinel as repository name, and the
  row written has the repository name \<open>null\<close>, not the empty string.
\<close>

theorem sentinel_not_cleared_for_RepoName:
  "DecodeAndValidate env_clear_repo = Some request_clear
   \<and> req_RepoName request_clear = ''null''
   \<and> takesUpdatePath ''api'' (ServeHTTP env_clear_repo)
   \<and> map app_RepoName (written_apps (calls (ServeHTTP env_clear_repo))) = [''null'']"
proof -
  have "DecodeAndValidate env_clear_repo = Some request_clear"
    and "req_RepoName request_clear = ''null''"
    by (simp_all add: env_clear_repo_def request_clear_def)
  moreover have "takesUpdatePath ''api'' (ServeHTTP env_clear_repo)"
    and "map app_RepoName (written_apps (calls (ServeHTTP env_clear_repo))) = [''null'']"
    by (simp_all add: run_clear_repo takesUpdatePath_def)
  ultimately show ?thesis
    by simp
qed

subsection \<open>C8: failures of the store\<close>

text \<open>
  Claim C8, amended. A failed write of the row is reported: the response is the internal
  error that carries the store's message, and no result. A failed append of the event is
  not: \<open>createPorterAppEvent\<close> returns the error, lines 231 and 365 drop it, and the
  response is the result of a successful deploy.
\<close>

theorem store_failures_reported_except_event:
  "(\<forall>a err. UpdatePorterApp a \<in> set (calls (ServeHTTP w)) \<and> repo_UpdatePorterApp w a = Inl err \<longrightarrow>
       responses (ServeHTTP w) =
         [HandleAPIError (ErrInternal (''error writing app to DB: '' @ err))] \<or>
       responses (ServeHTTP w) =
         [HandleAPIError (ErrInternal (''error writing updated app to DB: '' @ err))])
   \<and> (\<forall>e err. CreateEvent e \<in> set (calls (ServeHTTP w)) \<and> repo_CreateEvent w e = Inl err \<longrightarrow>
         (\<exists>app. responses (ServeHTTP w) = [WriteResult app]))"
proof (cases w rule: ServeHTTP_cases)
  case (abort t r)
  have "UpdatePorterApp a \<notin> set t" for a
    using prepare_call [OF abort(1), of "UpdatePorterApp a"] by auto
  moreover have "CreateEvent e \<notin> set t" for e
    using prepare_call [OF abort(1), of "CreateEvent e"] by auto
  ultimately show ?thesis
    using abort(2) by simp
next
  case (path t p)
  have t1: "UpdatePorterApp a \<notin> set t" for a
    using prepare_call [OF path(1), of "UpdatePorterApp a"] by auto
  have t2: "CreateEvent e \<notin> set t" for e
    using prepare_call [OF path(1), of "CreateEvent e"] by auto
  show ?thesis
  proof (cases "p_shouldCreate p")
    case True
    then show ?thesis
      using path(2) t1 t2 create_UpdatePorterApp [of _ w p] create_CreateEvent [of _ w p]
      by (auto simp: ServeHTTP_path_def)
  next
    case False
    then show ?thesis
      using path(2) t1 t2 update_UpdatePorterApp [of _ w p] update_CreateEvent [of _ w p]
      by (auto simp: ServeHTTP_path_def)
  qed
qed

text \<open>
  The theorem at a first deploy of \<open>api\<close> where the store refuses the row, and at one
  where it refuses the event.
\<close>

theorem store_failures_reported_except_event_witness:
  "UpdatePorterApp row_new \<in> set (calls (ServeHTTP env_write_fails))
   \<and> repo_UpdatePorterApp env_write_fails row_new = Inl ''connection refused''
   \<and> responses (ServeHTTP env_write_fails) =
       [HandleAPIError (ErrInternal ''error writing app to DB: connection refused'')]
   \<and> CreateEvent (event_api 1) \<in> set (calls (ServeHTTP env_event_fails))
   \<and> repo_CreateEvent env_event_fails (event_api 1) = Inl ''connection refused''
   \<and> (\<exists>app. responses (ServeHTTP env_event_fails) = [WriteResult app])"
proof -
  have "UpdatePorterApp row_new \<in> set (calls (ServeHTTP env_write_fails))"
    by (simp add: run_write_fails)
  moreover have "repo_UpdatePorterApp env_write_fails row_new = Inl ''connection refused''"
    by (simp add: env_write_fails_def)
  ultimately have h1: "UpdatePorterApp row_new \<in> set (calls (ServeHTTP env_write_fails))
            \<and> repo_UpdatePorterApp env_write_fails row_new = Inl ''connection refused''"
    by simp
  have "CreateEvent (event_api 1) \<in> set (calls (ServeHTTP env_event_fails))"
    by (simp add: run_event_fails)
  moreover have "repo_CreateEvent env_event_fails (event_api 1) = Inl ''connection refused''"
    by (simp add: env_event_fails_def)
  ultimately have h2: "CreateEvent (event_api 1) \<in> set (calls (ServeHTTP env_event_fails))
            \<and> repo_CreateEvent env_event_fails (event_api 1) = Inl ''connection refused''"
    by simp
  have r: "responses (ServeHTTP env_write_fails) =
       [HandleAPIError (ErrInternal ''error writing app to DB: connection refused'')]"
    by (simp add: run_write_fails)
  from store_failures_reported_except_event [of env_event_fails] h2
  have c: "\<exists>app. responses (ServeHTTP env_event_fails) = [WriteResult app]"
    by blast
  from store_failures_reported_except_event [of env_write_fails] h1
  have "responses (ServeHTTP env_write_fails) =
         [HandleAPIError (ErrInternal (''error writing app to DB: '' @ ''connection refused''))] \<or>
        responses (ServeHTTP env_write_fails) =
         [HandleAPIError (ErrInternal (''error writing updated app to DB: '' @ ''connection refused''))]"
    by blast
  with h1 h2 r c show ?thesis
    by simp
qed

text \<open>
  Against claim C8 as stated: the store refuses the event, \<open>createPorterAppEvent\<close>
  returns that error, and the handler answers with the row, as on success.
\<close>

theorem event_failure_reported_as_success:
  "map (repo_CreateEvent env_event_fails) (written_events (calls (ServeHTTP env_event_fails))) =
     [Inl ''connection refused'']
   \<and> snd (createPorterAppEvent env_event_fails ''SUCCESS'' 5 1) = (None, Some ''connection refused'')
   \<and> responses (ServeHTTP env_event_fails) = [WriteResult (row_new\<lparr>app_ID := 5\<rparr>)]"
proof -
  have "map (repo_CreateEvent env_event_fails) [event_api 1] = [Inl ''connection refused'']"
    and "snd (createPorterAppEvent env_event_fails ''SUCCESS'' 5 1) = (None, Some ''connection refused'')"
    by (simp_all add: env_event_fails_def createPorterAppEvent_def Let_def)
  moreover have "written_events (calls (ServeHTTP env_event_fails)) = [event_api 1]"
    and "responses (ServeHTTP env_event_fails) = [WriteResult (row_new\<lparr>app_ID := 5\<rparr>)]"
    by (simp_all add: run_event_fails calls_prepare_api_def)
  ultimately show ?thesis
    by simp
qed

subsection \<open>C9: the image of the build step\<close>

text \<open>
  Claim C9 says that resolving the image never raises. \<open>applyStack\<close> reads
  \<open>imageSpl[1]\<close> (line 71) without looking at the length of the split: for every
  non-empty image string without a colon the split has one element, and the index
  panics before any request is sent.
\<close>

theorem image_without_colon_panics:
  assumes "driverOutput ''image'' = Some (GoString img)" and "img \<noteq> []"
      and "CHR '':'' \<notin> set img"
  shows "applyStack_imageInfo driverOutput = Inl (IndexOutOfRange 1 1)
       \<and> applyStack t EncodeToString client shouldCreate driverOutput = Inl (IndexOutOfRange 1 1)"
  using assms
  by (simp add: applyStack_def applyStack_imageInfo_def go_index_def strings_Split_no_sep)

text \<open>The theorem at the image \<open>nginx\<close>.\<close>

theorem image_without_colon_panics_witness:
  "[''image'' \<mapsto> GoString ''nginx''] ''image'' = Some (GoString ''nginx'')
   \<and> ''nginx'' \<noteq> [] \<and> CHR '':'' \<notin> set ''nginx''
   \<and> applyStack_imageInfo [''image'' \<mapsto> GoString ''nginx''] = Inl (IndexOutOfRange 1 1)
   \<and> applyStack hook_api (\<lambda>s. s) (\<lambda>c. None) True [''image'' \<mapsto> GoString ''nginx''] =
       Inl (IndexOutOfRange 1 1)"
proof -
  have h: "[''image'' \<mapsto> GoString ''nginx''] ''image'' = Some (GoString ''nginx'')"
    "''nginx'' \<noteq> []" "CHR '':'' \<notin> set ''nginx''"
    by simp_all
  show ?thesis
    using h image_without_colon_panics
            [where driverOutput = "[''image'' \<mapsto> GoString ''nginx'']" and img = "''nginx''"
               and t = hook_api and EncodeToString = "\<lambda>s. s" and client = "\<lambda>c. None"
               and shouldCreate = True, OF h]
    by simp
qed

subsection \<open>C10: the release job survives the rollback\<close>

text \<open>
  Claim C10. On a create that overrides the release and asks for a release job, every
  install of the main release, whether it succeeds or fails, comes directly after the
  successful install of the release job \<open>stackName-r\<close>, and no install and no uninstall
  comes before that one. When the install of the main release fails, the only call after
  it is the uninstall of the main release: no uninstall of the release job is made, so
  the release job stays installed.
\<close>

theorem create_rollback_keeps_release_job:
  assumes "GetURLParamString w = Inr stackName"
      and "DecodeAndValidate w = Some request" and "req_OverrideRelease request"
      and "Parse a \<in> set (calls (ServeHTTP w))" and "parse w a = Inr (ch, vals, Some jobValues)"
      and "InstallChart c \<in> set (calls (ServeHTTP w))" and "icc_Name c = stackName"
  shows "takesCreatePath (ServeHTTP w)
       \<and> (\<exists>t cj rest. calls (ServeHTTP w) = t @ InstallChart cj # InstallChart c # rest
             \<and> icc_Name cj = stackName @ ''-r'' \<and> icc_Values cj = Some jobValues
             \<and> helm_InstallChart w cj = None
             \<and> (\<forall>c'. InstallChart c' \<notin> set t) \<and> (\<forall>n. UninstallChart n \<notin> set t)
             \<and> (\<forall>err. helm_InstallChart w c = Some err \<longrightarrow> rest = [UninstallChart stackName]))"
proof (cases w rule: ServeHTTP_cases)
  case (abort t r)
  with assms(6) show ?thesis
    using prepare_call [OF abort(1), of "InstallChart c"] by auto
next
  case (path t p)
  have n: "p_stackName p = stackName"
    using prepare_Inr(1) [OF path(1)] assms(1) by simp
  from main_install_on_create [OF path(1), of c] assms(6,7) path(2) n
  have m: "p_shouldCreate p" "c = appChartConfig p" "k8s_CreateNamespace w (p_namespace p) = None"
          "snd (snd (ServeHTTP_create_releaseJob w p))"
    by simp_all
  have "Parse a \<in> set t"
    using assms(4) path(2) path_calls [of "Parse a" w p a] by auto
  from prepare_Parse [OF path(1) this] assms(5)
  have jv: "p_releaseJobValues p = Some jobValues" by simp
  have ov: "req_OverrideRelease (p_request p)"
    using prepare_Inr(6) [OF path(1)] assms(2,3) by (auto simp: builder_snd)
  obtain tj rj where j: "ServeHTTP_create_releaseJob w p = (tj, rj, True)"
    using m(4) by (cases "ServeHTTP_create_releaseJob w p") auto
  from create_releaseJob_go [OF j] jv ov obtain cj where
    cj: "tj = [LoadChartPublic (conf_DefaultApplicationHelmRepoURL w) ''job'', InstallChart cj]"
        "icc_Name cj = stackName @ ''-r''" "icc_Values cj = Some jobValues"
        "helm_InstallChart w cj = None"
    using n by auto
  let ?t = "t @ [CreateNamespace (p_namespace p),
                 LoadChartPublic (conf_DefaultApplicationHelmRepoURL w) ''job'']"
  let ?rest = "(case helm_InstallChart w c of
                  Some err \<Rightarrow> [UninstallChart stackName]
                | None \<Rightarrow> calls (ServeHTTP_create_record w p))"
  have eq: "calls (ServeHTTP w) = ?t @ InstallChart cj # InstallChart c # ?rest"
    using path(2) m j cj(1) n
    by (simp add: ServeHTTP_path_def create_eq Let_def split: option.split)
  have t1: "InstallChart c' \<notin> set t" for c'
    using prepare_call [OF path(1), of "InstallChart c'"] by auto
  have t2: "UninstallChart n' \<notin> set t" for n'
    using prepare_call [OF path(1), of "UninstallChart n'"] by auto
  have pre: "(\<forall>c'. InstallChart c' \<notin> set ?t) \<and> (\<forall>n. UninstallChart n \<notin> set ?t)"
    using t1 t2 by simp
  have fail: "\<forall>err. helm_InstallChart w c = Some err \<longrightarrow> ?rest = [UninstallChart stackName]"
    by simp
  have takes: "takesCreatePath (ServeHTTP w)"
    using eq by (simp add: takesCreatePath_def)
  from eq cj(2,3,4) pre fail have
    "\<exists>t cj rest. calls (ServeHTTP w) = t @ InstallChart cj # InstallChart c # rest
             \<and> icc_Name cj = stackName @ ''-r'' \<and> icc_Values cj = Some jobValues
             \<and> helm_InstallChart w cj = None
             \<and> (\<forall>c'. InstallChart c' \<notin> set t) \<and> (\<forall>n. UninstallChart n \<notin> set t)
             \<and> (\<forall>err. helm_InstallChart w c = Some err \<longrightarrow> rest = [UninstallChart stackName])"
    by blast
  with takes show ?thesis by simp
qed

text \<open>
  The theorem at a first deploy of \<open>api\<close> where the install of the main release fails,
  and at one where it succeeds.
\<close>

theorem create_rollback_keeps_release_job_witness:
  "GetURLParamString env_install_fails = Inr ''api''
   \<and> DecodeAndValidate env_install_fails = Some request_api \<and> req_OverrideRelease request_api
   \<and> Parse parse_input_api \<in> set (calls (ServeHTTP env_install_fails))
   \<and> parse env_install_fails parse_input_api =
       Inr (''web'', Some [(''replicas'', ''1'')], Some [(''command'', ''migrate'')])
   \<and> InstallChart config_api \<in> set (calls (ServeHTTP env_install_fails))
   \<and> icc_Name config_api = ''api''
   \<and> helm_InstallChart env_install_fails config_api = Some ''timed out waiting for the condition''
   \<and> takesCreatePath (ServeHTTP env_install_fails)
   \<and> (\<exists>t cj. calls (ServeHTTP env_install_fails) =
                t @ [InstallChart cj, InstallChart config_api, UninstallChart ''api'']
           \<and> icc_Name cj = ''api-r'' \<and> icc_Values cj = Some [(''command'', ''migrate'')]
           \<and> helm_InstallChart env_install_fails cj = None
           \<and> (\<forall>n. UninstallChart n \<notin> set t))
   \<and> GetURLParamString env_create = Inr ''api''
   \<and> DecodeAndValidate env_create = Some request_api
   \<and> Parse parse_input_api \<in> set (calls (ServeHTTP env_create))
   \<and> parse env_create parse_input_api =
       Inr (''web'', Some [(''replicas'', ''1'')], Some [(''command'', ''migrate'')])
   \<and> InstallChart config_api \<in> set (calls (ServeHTTP env_create))
   \<and> helm_InstallChart env_create config_api = None
   \<and> (\<exists>t cj rest. calls (ServeHTTP env_create) = t @ InstallChart cj # InstallChart config_api # rest
           \<and> icc_Name cj = ''api-r'' \<and> icc_Values cj = Some [(''command'', ''migrate'')]
           \<and> helm_InstallChart env_create cj = None
           \<and> (\<forall>c'. InstallChart c' \<notin> set t))"
proof -
  have f: "GetURLParamString env_install_fails = Inr ''api''"
    "DecodeAndValidate env_install_fails = Some request_api" "req_OverrideRelease request_api"
    "parse env_install_fails parse_input_api =
       Inr (''web'', Some [(''replicas'', ''1'')], Some [(''command'', ''migrate'')])"
    "icc_Name config_api = ''api''"
    by (simp_all add: env_install_fails_def env_create_def config_api_def request_api_def)
  have e: "helm_InstallChart env_install_fails config_api = Some ''timed out waiting for the condition''"
    by (simp add: env_install_fails_def env_create_def config_api_def)
  have r: "Parse parse_input_api \<in> set (calls (ServeHTTP env_install_fails))"
    "InstallChart config_api \<in> set (calls (ServeHTTP env_install_fails))"
    by (simp_all add: run_install_fails calls_prepare_api_def)
  note h = f(1,2,3) r(1) f(4) r(2) f(5)
  have c1: "takesCreatePath (ServeHTTP env_install_fails)
     \<and> (\<exists>t cj. calls (ServeHTTP env_install_fails) =
                t @ [InstallChart cj, InstallChart config_api, UninstallChart ''api'']
           \<and> icc_Name cj = ''api-r'' \<and> icc_Values cj = Some [(''command'', ''migrate'')]
           \<and> helm_InstallChart env_install_fails cj = None
           \<and> (\<forall>n. UninstallChart n \<notin> set t))"
    using create_rollback_keeps_release_job [OF h] e by auto
  have g: "GetURLParamString env_create = Inr ''api''"
    "DecodeAndValidate env_create = Some request_api"
    "parse env_create parse_input_api =
       Inr (''web'', Some [(''replicas'', ''1'')], Some [(''command'', ''migrate'')])"
    "helm_InstallChart env_create config_api = None"
    by (simp_all add: env_create_def)
  have s: "Parse parse_input_api \<in> set (calls (ServeHTTP env_create))"
    "InstallChart config_api \<in> set (calls (ServeHTTP env_create))"
    by (simp_all add: run_create calls_prepare_api_def)
  have c2: "\<exists>t cj rest. calls (ServeHTTP env_create) = t @ InstallChart cj # InstallChart config_api # rest
           \<and> icc_Name cj = ''api-r'' \<and> icc_Values cj = Some [(''command'', ''migrate'')]
           \<and> helm_InstallChart env_create cj = None
           \<and> (\<forall>c'. InstallChart c' \<notin> set t)"
    using create_rollback_keeps_release_job [OF g(1,2) f(3) s(1) g(3) s(2) f(5)]
    by auto
  show ?thesis
    using f e r c1 g s c2 by simp
qed

end
